theory Spec2Isabelle
  imports Complex_Main "HOL-Library.AList"
begin

section \<open>Python values, exceptions and library functions\<close>

text \<open>
  The pipeline of the repository (\<^verbatim>\<open>utils/text_splitter.py\<close>,
  \<^verbatim>\<open>utils/performance.py\<close>, \<^verbatim>\<open>utils/validators.py\<close> and
  \<^verbatim>\<open>app/components/vectorstore.py\<close>) is embedded function by function.

  A Python \<^verbatim>\<open>str\<close> is a \<^typ>\<open>string\<close>; each \<^typ>\<open>char\<close> stands for one code
  point in the range 0..255 (Latin-1), which holds every character the source's keyword
  tables and character classes name except U+0178, so \<^const>\<open>length\<close> counts what Python's
  \<^verbatim>\<open>len\<close> counts. A Python \<^verbatim>\<open>float\<close> is a value of the type
  variable \<open>'f\<close>: the arithmetic on floats is a parameter of the model, so every theorem
  holds whatever the rounding is.
\<close>

datatype 'f pyvalue =
    PNone
  | PBool bool
  | PInt int
  | PFloat 'f
  | PStr string
  | PList "'f pyvalue list"
  | PDict "('f pyvalue \<times> 'f pyvalue) list"
  | PObject string

text \<open>\<open>PObject\<close> is a value of any other class (a tuple, a set, ...), named by a tag.\<close>

datatype pyexn = ValueError string | TypeError string

fun exn_str :: "pyexn \<Rightarrow> string" where
  "exn_str (ValueError m) = m"
| "exn_str (TypeError m) = m"

text \<open>
  What the source calls and the repository does not define: the built-ins \<^verbatim>\<open>hash\<close>
  (salted once per interpreter process, hence a fixed function of the text within a process)
  and \<^verbatim>\<open>str\<close>, \<^verbatim>\<open>json.dumps\<close> (raises \<^verbatim>\<open>TypeError\<close> on
  a value it cannot serialise), langchain's
  \<^verbatim>\<open>RecursiveCharacterTextSplitter(chunk_size, chunk_overlap, separators).split_text\<close>
  (its constructor raises \<^verbatim>\<open>ValueError\<close> on an overlap larger than the chunk size),
  and float arithmetic: \<open>fl_dec m e\<close> is the float of the decimal literal \<open>m / 10 ^ e\<close>
  and \<open>fl_bool x\<close> the truth value of \<open>x\<close>.
\<close>

record 'f pylib =
  lib_hash :: "string \<Rightarrow> int"
  lib_str :: "'f pyvalue \<Rightarrow> string"
  lib_json_dumps :: "'f pyvalue \<Rightarrow> pyexn + string"
  lib_split_text :: "string list \<Rightarrow> int \<Rightarrow> int \<Rightarrow> string \<Rightarrow> pyexn + string list"
  fl_dec :: "int \<Rightarrow> nat \<Rightarrow> 'f"
  fl_of_int :: "int \<Rightarrow> 'f"
  fl_add :: "'f \<Rightarrow> 'f \<Rightarrow> 'f"
  fl_sub :: "'f \<Rightarrow> 'f \<Rightarrow> 'f"
  fl_mul :: "'f \<Rightarrow> 'f \<Rightarrow> 'f"
  fl_div :: "'f \<Rightarrow> 'f \<Rightarrow> 'f"
  fl_bool :: "'f \<Rightarrow> bool"

section \<open>Characters and strings\<close>

definition ord :: "char \<Rightarrow> nat" where
  "ord c = of_char c"

definition nl :: char where
  "nl = CHR 0x0A"

definition sp :: char where
  "sp = CHR 0x20"

text \<open>\<^verbatim>\<open>str.isspace\<close> and the class \<^verbatim>\<open>\s\<close> of \<^verbatim>\<open>re\<close>.\<close>

definition isspace :: "char \<Rightarrow> bool" where
  "isspace c = (let n = ord c in (9 \<le> n \<and> n \<le> 13) \<or> (28 \<le> n \<and> n \<le> 32) \<or> n = 133 \<or> n = 160)"

text \<open>The class \<^verbatim>\<open>[A-Z]\<close>.\<close>

definition is_AZ :: "char \<Rightarrow> bool" where
  "is_AZ c = (65 \<le> ord c \<and> ord c \<le> 90)"

definition is_az :: "char \<Rightarrow> bool" where
  "is_az c = (97 \<le> ord c \<and> ord c \<le> 122)"

text \<open>The class \<^verbatim>\<open>\d\<close>: the decimal digits.\<close>

definition is_digit :: "char \<Rightarrow> bool" where
  "is_digit c = (48 \<le> ord c \<and> ord c \<le> 57)"

text \<open>The class \<^verbatim>\<open>\w\<close>: \<^verbatim>\<open>str.isalnum\<close> or the underscore.\<close>

definition is_word :: "char \<Rightarrow> bool" where
  "is_word c = (let n = ord c in
     is_az c \<or> is_AZ c \<or> is_digit c \<or> n = 95 \<or>
     n = 170 \<or> n = 178 \<or> n = 179 \<or> n = 181 \<or> n = 185 \<or> n = 186 \<or>
     (188 \<le> n \<and> n \<le> 190) \<or> (192 \<le> n \<and> n \<le> 214) \<or>
     (216 \<le> n \<and> n \<le> 246) \<or> (248 \<le> n \<and> n \<le> 255))"

text \<open>\<^verbatim>\<open>str.lower\<close>, one character at a time.\<close>

definition lower_char :: "char \<Rightarrow> char" where
  "lower_char c = (let n = ord c in
     if is_AZ c \<or> (192 \<le> n \<and> n \<le> 222 \<and> n \<noteq> 215) then char_of (n + 32) else c)"

definition lower :: "string \<Rightarrow> string" where
  "lower s = map lower_char s"

definition strip :: "string \<Rightarrow> string" where
  "strip s = rev (dropWhile isspace (rev (dropWhile isspace s)))"

fun startswith :: "string \<Rightarrow> string \<Rightarrow> bool" where
  "startswith s [] = True"
| "startswith [] (k # ks) = False"
| "startswith (c # cs) (k # ks) = (c = k \<and> startswith cs ks)"

text \<open>\<^verbatim>\<open>k in s\<close> on strings.\<close>

fun py_in :: "string \<Rightarrow> string \<Rightarrow> bool" where
  "py_in k [] = (k = [])"
| "py_in k (c # cs) = (startswith (c # cs) k \<or> py_in k cs)"

text \<open>\<^verbatim>\<open>sep.join(parts)\<close>.\<close>

fun join :: "string \<Rightarrow> string list \<Rightarrow> string" where
  "join sep [] = []"
| "join sep [p] = p"
| "join sep (p # q # ps) = p @ sep @ join sep (q # ps)"

section \<open>SmartTextSplitter\<close>

subsection \<open>detect\_document\_type\<close>

definition e_acute :: char where
  "e_acute = CHR 0xE9"

definition e_circ :: char where
  "e_circ = CHR 0xEA"

definition academic_keywords :: "string list" where
  "academic_keywords =
    [''abstract'', ''r'' @ [e_acute] @ ''sum'' @ [e_acute], ''introduction'', ''conclusion'',
     ''r'' @ [e_acute] @ ''f'' @ [e_acute] @ ''rences'', ''bibliographie'']"

definition technical_keywords :: "string list" where
  "technical_keywords =
    [''api'', ''fonction'', ''class'', ''def '', ''import'', ''documentation'', ''manuel'']"

definition legal_keywords :: "string list" where
  "legal_keywords =
    [''article'', ''clause'', ''alin'' @ [e_acute] @ ''a'', ''consid'' @ [e_acute] @ ''rant'',
     ''attendu'', ''arr'' @ [e_circ] @ ''t'' @ [e_acute]]"

text \<open>\<^verbatim>\<open>sum(1 for keyword in keywords if keyword in text_lower)\<close>.\<close>

definition keyword_score :: "string list \<Rightarrow> string \<Rightarrow> nat" where
  "keyword_score keywords text_lower = length (filter (\<lambda>keyword. py_in keyword text_lower) keywords)"

text \<open>
  \<^verbatim>\<open>max(scores.values())\<close> and \<^verbatim>\<open>max(scores, key=scores.get)\<close> on a
  dict, given as its items in insertion order: Python's \<^verbatim>\<open>max\<close> walks the items
  and replaces its candidate only by a strictly larger one, so both calls stop at the same
  item, the first of maximal value: its value is \<^verbatim>\<open>max_score\<close>, its key the type
  returned.
\<close>

fun max_from :: "string \<times> nat \<Rightarrow> (string \<times> nat) list \<Rightarrow> string \<times> nat" where
  "max_from best [] = best"
| "max_from best (item # items) = max_from (if snd best < snd item then item else best) items"

text \<open>On an empty dict Python raises \<^verbatim>\<open>ValueError\<close>; \<open>scores\<close> below has three
  entries.\<close>

definition py_max :: "(string \<times> nat) list \<Rightarrow> (string \<times> nat) option" where
  "py_max items = (case items of [] \<Rightarrow> None | first # others \<Rightarrow> Some (max_from first others))"

definition detect_document_type :: "string \<Rightarrow> string" where
  "detect_document_type text =
    (let text_lower = lower text;
         academic_score = keyword_score academic_keywords text_lower;
         technical_score = keyword_score technical_keywords text_lower;
         legal_score = keyword_score legal_keywords text_lower;
         scores = [(''academic'', academic_score), (''technical'', technical_score),
                   (''legal'', legal_score)]
     in case py_max scores of
          None \<Rightarrow> ''default''
        | Some (max_type, max_score) \<Rightarrow> if 2 \<le> max_score then max_type else ''default'')"

subsection \<open>Separators and create\_splitter\<close>

definition default_separators :: "string list" where
  "default_separators = [[nl, nl], [nl], ''. '', ''! '', ''? '', '' '', '''']"

definition separators :: "(string \<times> string list) list" where
  "separators =
    [(''default'', default_separators),
     (''academic'', [[nl, nl], [nl], ''. '', ''; '', '', '', '' '', '''']),
     (''technical'', [[nl, nl], [nl], [CHR ''.'', nl], ''. '', [CHR '':'', nl], '': '', '' '', '''']),
     (''legal'', [[nl, nl], [nl], ''. '', ''; '', '' - '', '' '', ''''])]"

text \<open>
  \<^verbatim>\<open>create_splitter\<close> chooses the separators
  (\<open>default_separators\<close> is \<^verbatim>\<open>self.separators['default']\<close>) and builds the
  library's splitter with them, with \<^verbatim>\<open>length_function=len\<close> and
  \<^verbatim>\<open>keep_separator=True\<close>; the model passes the arguments on to the library's
  \<^verbatim>\<open>split_text\<close>.
\<close>

definition splitter_separators :: "string \<Rightarrow> string list" where
  "splitter_separators document_type =
    (if document_type = ''auto'' then default_separators
     else (case map_of separators document_type of
             Some seps \<Rightarrow> seps
           | None \<Rightarrow> default_separators))"

definition create_splitter ::
  "'f pylib \<Rightarrow> int \<Rightarrow> int \<Rightarrow> string \<Rightarrow> string \<Rightarrow> pyexn + string list" where
  "create_splitter lib chunk_size chunk_overlap document_type =
    lib_split_text lib (splitter_separators document_type) chunk_size chunk_overlap"

subsection \<open>\_preprocess\_text\<close>

text \<open>\<^verbatim>\<open>re.sub(r'\s+', ' ', text)\<close>; the flag says that the previous character was
  whitespace, already replaced.\<close>

fun sub_spaces :: "bool \<Rightarrow> string \<Rightarrow> string" where
  "sub_spaces in_run [] = []"
| "sub_spaces in_run (c # cs) =
    (if isspace c then (if in_run then sub_spaces True cs else sp # sub_spaces True cs)
     else c # sub_spaces False cs)"

text \<open>
  After a newline, \<open>newline_run cs n\<close> looks at the whitespace that \<open>cs\<close> starts with and
  returns what follows its last newline, when it holds at least \<open>n\<close> newlines: where the
  greedy \<^verbatim>\<open>\n\s*\n\<close> (\<open>n = 1\<close>) and \<^verbatim>\<open>\n\s*\n\s*\n\<close> (\<open>n = 2\<close>) end.
\<close>

definition newline_run :: "string \<Rightarrow> nat \<Rightarrow> string option" where
  "newline_run cs n =
    (let run = takeWhile isspace cs;
         tail = takeWhile (\<lambda>c. c \<noteq> nl) (rev run)
     in if n \<le> length (filter (\<lambda>c. c = nl) run) \<and> 0 < n
        then Some (drop (length run - length tail) cs) else None)"

text \<open>\<^verbatim>\<open>re.sub(pattern, '\n\n', text)\<close> for the two patterns above.\<close>

function sub_newlines :: "nat \<Rightarrow> string \<Rightarrow> string" where
  "sub_newlines n [] = []"
| "sub_newlines n (c # cs) =
    (if c = nl then
       (case newline_run cs n of
          Some rest \<Rightarrow> nl # nl # sub_newlines n rest
        | None \<Rightarrow> c # sub_newlines n cs)
     else c # sub_newlines n cs)"
  by pat_completeness auto
termination
  by (relation "measure (\<lambda>(n, s). length s)")
    (auto simp: newline_run_def Let_def split: if_splits)

text \<open>\<^verbatim>\<open>re.sub(r'([.!?])\s*([A-Z])', r'\1\n\2', text)\<close>.\<close>

definition sentence_end :: "char \<Rightarrow> bool" where
  "sentence_end c = (c = CHR ''.'' \<or> c = CHR ''!'' \<or> c = CHR ''?'')"

function sub_sentences :: "string \<Rightarrow> string" where
  "sub_sentences [] = []"
| "sub_sentences (c # cs) =
    (if sentence_end c then
       (case dropWhile isspace cs of
          [] \<Rightarrow> c # sub_sentences cs
        | u # rest \<Rightarrow> if is_AZ u then c # nl # u # sub_sentences rest else c # sub_sentences cs)
     else c # sub_sentences cs)"
  by pat_completeness auto
termination
proof (relation "measure length")
  fix c :: char and cs u rest
  assume "dropWhile isspace cs = u # rest"
  then have "length (u # rest) \<le> length cs"
    by (metis length_dropWhile_le)
  then show "(rest, c # cs) \<in> measure length"
    by simp
qed auto

definition preprocess_text :: "string \<Rightarrow> string" where
  "preprocess_text text = strip (sub_sentences (sub_newlines 1 (sub_spaces False text)))"

subsection \<open>\_clean\_chunk\<close>

text \<open>The class \<^verbatim>\<open>[.!?;:,\s]\<close>.\<close>

definition leading_separator :: "char \<Rightarrow> bool" where
  "leading_separator c = (c \<in> set ''.!?;:,'' \<or> isspace c)"

definition clean_chunk :: "string \<Rightarrow> string" where
  "clean_chunk chunk = dropWhile leading_separator (sub_newlines 2 (strip chunk))"

subsection \<open>smart\_split\<close>

definition smart_split :: "'f pylib \<Rightarrow> string \<Rightarrow> int \<Rightarrow> int \<Rightarrow> bool \<Rightarrow> pyexn + string list" where
  "smart_split lib text chunk_size chunk_overlap preserve_structure =
    (let doc_type = detect_document_type text;
         text' = (if preserve_structure then preprocess_text text else text)
     in case create_splitter lib chunk_size chunk_overlap doc_type text' of
          Inl e \<Rightarrow> Inl e
        | Inr chunks \<Rightarrow>
            Inr (filter (\<lambda>chunk. strip chunk \<noteq> []) (map clean_chunk chunks)))"

subsection \<open>\_has\_structure\_markers\<close>

text \<open>Where \<^verbatim>\<open>^\<close> matches under \<^verbatim>\<open>re.MULTILINE\<close>: at the start and after
  every newline.\<close>

fun after_newlines :: "string \<Rightarrow> string list" where
  "after_newlines [] = []"
| "after_newlines (c # cs) = (if c = nl then cs # after_newlines cs else after_newlines cs)"

definition line_starts :: "string \<Rightarrow> string list" where
  "line_starts s = s # after_newlines s"

text \<open>\<^verbatim>\<open>\d+\.\<close>, \<^verbatim>\<open>[A-Z][.]\<close>, \<^verbatim>\<open>-\s\<close>, \<^verbatim>\<open>\*\s\<close> and
  \<^verbatim>\<open>\w+:\s\<close>, each matched at the head of \<open>s\<close>.\<close>

definition match_numbering :: "string \<Rightarrow> bool" where
  "match_numbering s =
    (takeWhile is_digit s \<noteq> [] \<and> startswith (dropWhile is_digit s) ''.'')"

definition match_section :: "string \<Rightarrow> bool" where
  "match_section s = (case s of u # d # _ \<Rightarrow> is_AZ u \<and> d = CHR ''.'' | _ \<Rightarrow> False)"

definition match_bullet :: "char \<Rightarrow> string \<Rightarrow> bool" where
  "match_bullet b s = (case s of d # w # _ \<Rightarrow> d = b \<and> isspace w | _ \<Rightarrow> False)"

definition match_label :: "string \<Rightarrow> bool" where
  "match_label s =
    (takeWhile is_word s \<noteq> [] \<and>
     (case dropWhile is_word s of d # w # _ \<Rightarrow> d = CHR '':'' \<and> isspace w | _ \<Rightarrow> False))"

definition structure_patterns :: "(string \<Rightarrow> bool) list" where
  "structure_patterns =
    [match_numbering, match_section, match_bullet (CHR ''-''), match_bullet (CHR ''*''), match_label]"

definition has_structure_markers :: "string \<Rightarrow> bool" where
  "has_structure_markers chunk =
    list_ex (\<lambda>pattern. list_ex pattern (line_starts chunk)) structure_patterns"

subsection \<open>\_extract\_keywords\<close>

definition stop_words :: "string list" where
  "stop_words =
    [''le'', ''la'', ''les'', ''un'', ''une'', ''des'', ''de'', ''du'', ''et'', ''ou'', [CHR 0xE0],
     ''dans'', ''sur'', ''pour'', ''par'', ''avec'', ''sans'', ''sous'', ''que'', ''qui'', ''quoi'',
     ''dont'', [CHR ''o'', CHR 0xF9], ''ce'', ''cette'', ''ces'', ''est'', ''sont'',
     ''the'', ''a'', ''an'', ''and'', ''or'', ''but'', ''in'', ''on'', ''at'', ''to'', ''for'',
     ''of'', ''with'', ''by'', ''is'', ''are'']"

text \<open>The class of the word pattern: the ASCII letters and the accented letters it
  lists (in the order of the source, lower case then upper case).\<close>

definition keyword_letter :: "char \<Rightarrow> bool" where
  "keyword_letter c =
    (is_az c \<or> is_AZ c \<or>
     ord c \<in> set [0xE0, 0xE2, 0xE4, 0xE9, 0xE8, 0xEA, 0xEB, 0xEF, 0xEE, 0xF4, 0xF6, 0xF9, 0xFB,
                  0xFC, 0xFF, 0xE7,
                  0xC0, 0xC2, 0xC4, 0xC9, 0xC8, 0xCA, 0xCB, 0xCF, 0xCE, 0xD4, 0xD6, 0xD9, 0xDB,
                  0xDC, 0xC7])"

text \<open>The maximal runs of \<^verbatim>\<open>\w\<close> characters of a string, in order.\<close>

function word_runs :: "string \<Rightarrow> string list" where
  "word_runs [] = []"
| "word_runs (c # cs) =
    (if is_word c then takeWhile is_word (c # cs) # word_runs (dropWhile is_word cs)
     else word_runs cs)"
  by pat_completeness auto
termination
proof (relation "measure length")
  fix c :: char and cs
  have "length (dropWhile is_word cs) \<le> length cs"
    by (rule length_dropWhile_le)
  then show "(dropWhile is_word cs, c # cs) \<in> measure length"
    by simp
qed auto

text \<open>
  \<^verbatim>\<open>re.findall(r'\b[a-z...]{3,}\b', s)\<close>: every letter of the class is a
  \<^verbatim>\<open>\w\<close> character, so a match between two \<^verbatim>\<open>\b\<close> is a whole run of
  \<^verbatim>\<open>\w\<close> characters, of three letters of the class or more.
\<close>

definition findall_words :: "string \<Rightarrow> string list" where
  "findall_words s = filter (\<lambda>w. 3 \<le> length w \<and> list_all keyword_letter w) (word_runs s)"

text \<open>\<^verbatim>\<open>word_freq[word] = word_freq.get(word, 0) + 1\<close>, on the dict's items.\<close>

definition count_word :: "string \<Rightarrow> (string \<times> nat) list \<Rightarrow> (string \<times> nat) list" where
  "count_word word word_freq =
    AList.update word ((case map_of word_freq word of None \<Rightarrow> 0 | Some n \<Rightarrow> n) + 1) word_freq"

definition extract_keywords :: "string \<Rightarrow> nat \<Rightarrow> string list" where
  "extract_keywords chunk max_keywords =
    (let wanted = filter (\<lambda>word. word \<notin> set stop_words \<and> 2 < length word)
                    (findall_words (lower chunk));
         word_freq = fold count_word wanted [];
         sorted_words = sort_key (\<lambda>(word, n). - int n) word_freq
     in map fst (take max_keywords sorted_words))"

section \<open>Documents\<close>

text \<open>
  langchain's \<^verbatim>\<open>Document\<close>. A dict is the list of its items in insertion order:
  \<^verbatim>\<open>d[key] = value\<close> is \<^const>\<open>AList.update\<close>, \<^verbatim>\<open>d.get(key, default)\<close> is
  \<open>dict_get\<close>, and \<^verbatim>\<open>key in d\<close> is membership in the keys.
\<close>

record 'f document =
  page_content :: string
  metadata :: "(string \<times> 'f pyvalue) list"

definition dict_get :: "(string \<times> 'v) list \<Rightarrow> string \<Rightarrow> 'v \<Rightarrow> 'v" where
  "dict_get d key dflt = (case map_of d key of Some v \<Rightarrow> v | None \<Rightarrow> dflt)"

subsection \<open>split\_documents\_with\_metadata\<close>

definition chunk_position :: "nat \<Rightarrow> nat \<Rightarrow> string" where
  "chunk_position i total_chunks =
    (if i = 0 then ''start'' else if int i = int total_chunks - 1 then ''end'' else ''middle'')"

text \<open>The body of the loop over \<^verbatim>\<open>enumerate(chunks)\<close>.\<close>

fun chunk_document :: "string \<Rightarrow> string \<Rightarrow> nat \<Rightarrow> nat \<times> string \<Rightarrow> 'f document" where
  "chunk_document filename doc_type total_chunks (i, chunk) =
    (let metadata =
           [(''filename'', PStr filename),
            (''chunk_id'', PInt (int i)),
            (''total_chunks'', PInt (int total_chunks)),
            (''document_type'', PStr doc_type),
            (''chunk_size'', PInt (int (length chunk))),
            (''chunk_position'', PStr (chunk_position i total_chunks)),
            (''contains_structure'', PBool (has_structure_markers chunk))];
         keywords = extract_keywords chunk 5
     in \<lparr>page_content = chunk,
         metadata = (if keywords \<noteq> []
                     then AList.update ''keywords'' (PList (map PStr keywords)) metadata
                     else metadata)\<rparr>)"

definition split_documents_with_metadata ::
  "'f pylib \<Rightarrow> string \<Rightarrow> string \<Rightarrow> int \<Rightarrow> int \<Rightarrow> pyexn + 'f document list" where
  "split_documents_with_metadata lib text filename chunk_size chunk_overlap =
    (case smart_split lib text chunk_size chunk_overlap True of
       Inl e \<Rightarrow> Inl e
     | Inr chunks \<Rightarrow>
         (let doc_type = detect_document_type text
          in Inr (map (chunk_document filename doc_type (length chunks)) (enumerate 0 chunks))))"

subsection \<open>\_filter\_complex\_metadata\<close>

text \<open>What ChromaDB accepts as a metadata value: str, int, float, bool, None.\<close>

fun storable :: "'f pyvalue \<Rightarrow> bool" where
  "storable PNone = True"
| "storable (PBool b) = True"
| "storable (PInt n) = True"
| "storable (PFloat x) = True"
| "storable (PStr s) = True"
| "storable (PList xs) = False"
| "storable (PDict kvs) = False"
| "storable (PObject tag) = False"

text \<open>The branches of the loop over \<^verbatim>\<open>doc.metadata.items()\<close>, in the order of the
  source.\<close>

definition filter_value :: "'f pylib \<Rightarrow> 'f pyvalue \<Rightarrow> pyexn + 'f pyvalue" where
  "filter_value lib v =
    (if storable v then Inr v
     else (case v of
             PList xs \<Rightarrow> Inr (PStr (join '', '' (map (lib_str lib) xs)))
           | PDict kvs \<Rightarrow>
               (case lib_json_dumps lib v of Inl e \<Rightarrow> Inl e | Inr s \<Rightarrow> Inr (PStr s))
           | _ \<Rightarrow> Inr (PStr (lib_str lib v))))"

fun filter_items ::
  "'f pylib \<Rightarrow> (string \<times> 'f pyvalue) list \<Rightarrow> (string \<times> 'f pyvalue) list
    \<Rightarrow> pyexn + (string \<times> 'f pyvalue) list" where
  "filter_items lib [] filtered_metadata = Inr filtered_metadata"
| "filter_items lib ((key, v) # items) filtered_metadata =
    (case filter_value lib v of
       Inl e \<Rightarrow> Inl e
     | Inr v' \<Rightarrow> filter_items lib items (AList.update key v' filtered_metadata))"

fun filter_complex_metadata :: "'f pylib \<Rightarrow> 'f document list \<Rightarrow> pyexn + 'f document list" where
  "filter_complex_metadata lib [] = Inr []"
| "filter_complex_metadata lib (doc # documents) =
    (case filter_items lib (metadata doc) [] of
       Inl e \<Rightarrow> Inl e
     | Inr filtered_metadata \<Rightarrow>
         (case filter_complex_metadata lib documents of
            Inl e \<Rightarrow> Inl e
          | Inr filtered_docs \<Rightarrow>
              Inr (\<lparr>page_content = page_content doc, metadata = filtered_metadata\<rparr>
                   # filtered_docs)))"

section \<open>HuggingFaceAPIEmbeddings\<close>

text \<open>
  What \<^verbatim>\<open>requests.post\<close> does on one call: it raises, or it returns a response
  with a status code and a body, on which \<^verbatim>\<open>response.json()\<close> raises (\<open>None\<close>) or
  returns a value. The remote service is a function of the number of the request (counted
  from the start of the run) and of the texts sent.
\<close>

datatype 'f http = Raises | Response int "'f pyvalue option"

type_synonym 'f remote = "nat \<Rightarrow> string list \<Rightarrow> 'f http"

text \<open>What a call does besides returning: the requests it sends and the seconds it
  sleeps, in order.\<close>

datatype event = Request "string list" | Sleep int

definition requests :: "event list \<Rightarrow> nat" where
  "requests events = length (filter (\<lambda>e. case e of Request texts \<Rightarrow> True | Sleep n \<Rightarrow> False) events)"

definition dimension :: nat where
  "dimension = 384"

subsection \<open>\_generate\_fake\_embeddings\<close>

definition fake_embedding :: "'f pylib \<Rightarrow> string \<Rightarrow> 'f pyvalue" where
  "fake_embedding lib text =
    (let text_hash = lib_hash lib text mod 1000
     in PList (map (\<lambda>j. PFloat (fl_add lib
                   (fl_add lib (fl_dec lib 1 1)
                      (fl_div lib (fl_of_int lib text_hash) (fl_dec lib 10000 0)))
                   (fl_mul lib (fl_of_int lib (int j)) (fl_dec lib 1 3))))
               [0..<dimension]))"

definition generate_fake_embeddings :: "'f pylib \<Rightarrow> string list \<Rightarrow> 'f pyvalue list" where
  "generate_fake_embeddings lib texts = map (fake_embedding lib) texts"

subsection \<open>\_call\_api\<close>

text \<open>
  The status-200 branch: \<^verbatim>\<open>embeddings[0]\<close> raises on an empty list or string
  (IndexError), on a JSON object, whose keys are strings (KeyError), and on a number, a
  boolean or null (TypeError); the handler of the \<^verbatim>\<open>try\<close> catches it (\<open>None\<close>).
  Otherwise the branch returns \<^verbatim>\<open>embeddings\<close> when its first element is a list, and
  \<^verbatim>\<open>[embeddings]\<close> when it is not.
\<close>

fun parse_embeddings :: "'f pyvalue \<Rightarrow> 'f pyvalue list option" where
  "parse_embeddings (PList []) = None"
| "parse_embeddings (PList (PList v # rest)) = Some (PList v # rest)"
| "parse_embeddings (PList (first # rest)) = Some [PList (first # rest)]"
| "parse_embeddings (PStr []) = None"
| "parse_embeddings (PStr (c # cs)) = Some [PStr (c # cs)]"
| "parse_embeddings other = None"

text \<open>
  The loop \<^verbatim>\<open>for attempt in range(max_retries)\<close>, from the attempt \<open>attempt\<close> on;
  \<open>n\<close> is the number of requests sent before the call. Leaving the loop, by
  \<^verbatim>\<open>break\<close> or at its end, falls through to the fake embeddings.
\<close>

function call_api_from ::
  "'f pylib \<Rightarrow> 'f remote \<Rightarrow> nat \<Rightarrow> string list \<Rightarrow> nat \<Rightarrow> nat \<Rightarrow> 'f pyvalue list \<times> event list" where
  "call_api_from lib remote n texts max_retries attempt =
    (if attempt < max_retries then
       (let on_exception =
              (if int attempt < int max_retries - 1 then
                 (let (r, events) = call_api_from lib remote n texts max_retries (attempt + 1)
                  in (r, Request texts # Sleep 1 # events))
               else (generate_fake_embeddings lib texts, [Request texts]))
        in case remote (n + attempt) texts of
             Raises \<Rightarrow> on_exception
           | Response status_code body \<Rightarrow>
               if status_code = 200 then
                 (case body of
                    None \<Rightarrow> on_exception
                  | Some embeddings \<Rightarrow>
                      (case parse_embeddings embeddings of
                         None \<Rightarrow> on_exception
                       | Some r \<Rightarrow> (r, [Request texts])))
               else if status_code = 503 then
                 (let (r, events) = call_api_from lib remote n texts max_retries (attempt + 1)
                  in (r, Request texts # Sleep (2 ^ attempt) # events))
               else (generate_fake_embeddings lib texts, [Request texts]))
     else (generate_fake_embeddings lib texts, []))"
  by pat_completeness auto
termination
  by (relation "measure (\<lambda>(lib, remote, n, texts, max_retries, attempt). max_retries - attempt)")
    auto

declare call_api_from.simps [simp del]

definition call_api ::
  "'f pylib \<Rightarrow> 'f remote \<Rightarrow> nat \<Rightarrow> string list \<Rightarrow> nat \<Rightarrow> 'f pyvalue list \<times> event list" where
  "call_api lib remote n texts max_retries = call_api_from lib remote n texts max_retries 0"

subsection \<open>embed\_documents and embed\_query\<close>

text \<open>\<^verbatim>\<open>texts[i:i + batch_size]\<close> for \<^verbatim>\<open>i in range(0, len(texts), batch_size)\<close>.\<close>

function batches :: "nat \<Rightarrow> 'a list \<Rightarrow> 'a list list" where
  "batches batch_size texts =
    (if texts = [] \<or> batch_size = 0 then []
     else take batch_size texts # batches batch_size (drop batch_size texts))"
  by pat_completeness auto
termination
  by (relation "measure (\<lambda>(batch_size, texts). length texts)") auto

declare batches.simps [simp del]

fun embed_batches ::
  "'f pylib \<Rightarrow> 'f remote \<Rightarrow> nat \<Rightarrow> string list list \<Rightarrow> 'f pyvalue list \<times> event list" where
  "embed_batches lib remote n [] = ([], [])"
| "embed_batches lib remote n (batch # rest) =
    (let (batch_embeddings, events) = call_api lib remote n batch 3;
         (all_embeddings, events') = embed_batches lib remote (n + requests events) rest
     in (batch_embeddings @ all_embeddings, events @ events'))"

definition embed_documents ::
  "'f pylib \<Rightarrow> 'f remote \<Rightarrow> nat \<Rightarrow> string list \<Rightarrow> 'f pyvalue list \<times> event list" where
  "embed_documents lib remote n texts = embed_batches lib remote n (batches 10 texts)"

definition embed_query ::
  "'f pylib \<Rightarrow> 'f remote \<Rightarrow> nat \<Rightarrow> string \<Rightarrow> 'f pyvalue \<times> event list" where
  "embed_query lib remote n text =
    (let (embeddings, events) = call_api lib remote n [text] 3
     in (case embeddings of
           [] \<Rightarrow> hd (generate_fake_embeddings lib [text])
         | first # others \<Rightarrow> first,
         events))"

text \<open>\<^verbatim>\<open>len(v)\<close> of a returned vector; \<open>None\<close> where Python has no length.\<close>

fun py_len :: "'f pyvalue \<Rightarrow> nat option" where
  "py_len (PList xs) = Some (length xs)"
| "py_len (PStr s) = Some (length s)"
| "py_len (PDict kvs) = Some (length kvs)"
| "py_len other = None"

section \<open>InputValidator\<close>

text \<open>An f-string field holding an \<^verbatim>\<open>Optional[str]\<close>.\<close>

definition format_optional :: "string option \<Rightarrow> string" where
  "format_optional m = (case m of None \<Rightarrow> ''None'' | Some text \<Rightarrow> text)"

text \<open>The chunk size is an \<^typ>\<open>int\<close> in the model, so the \<^verbatim>\<open>isinstance\<close> test
  that opens \<^verbatim>\<open>validate_chunk_size\<close> passes.\<close>

definition validate_chunk_size :: "int \<Rightarrow> bool \<times> string option" where
  "validate_chunk_size chunk_size =
    (if chunk_size < 100 then (False, Some ''Taille des chunks trop petite (minimum 100)'')
     else if chunk_size > 4000 then (False, Some ''Taille des chunks trop grande (maximum 4000)'')
     else (True, None))"

text \<open>The patterns \<^verbatim>\<open><script\<close>, \<^verbatim>\<open>javascript:\<close>, \<^verbatim>\<open>eval\(\<close> and
  \<^verbatim>\<open>exec\(\<close>, searched with \<^verbatim>\<open>re.IGNORECASE\<close>.\<close>

definition suspicious_patterns :: "string list" where
  "suspicious_patterns = [''<script'', ''javascript:'', ''eval('', ''exec('']"

definition validate_question :: "string \<Rightarrow> bool \<times> string option" where
  "validate_question question =
    (if question = [] \<or> strip question = [] then (False, Some ''Question vide'')
     else (let question = strip question
           in if length question < 3
              then (False, Some (''Question trop courte (minimum 3 caract'' @ [CHR 0xE8] @ ''res)''))
              else if length question > 1000
              then (False, Some (''Question trop longue (maximum 1000 caract'' @ [CHR 0xE8] @ ''res)''))
              else if list_ex (\<lambda>pattern. py_in pattern (lower question)) suspicious_patterns
              then (False, Some (''Question contient des '' @ [e_acute] @ ''l'' @ [e_acute]
                                 @ ''ments suspects''))
              else (True, None)))"

section \<open>PerformanceMonitor\<close>

record ('f, 't) performance_metrics =
  timestamp :: 't
  operation :: string
  duration :: 'f
  memory_usage :: 'f
  cpu_usage :: 'f
  success :: bool
  error_message :: "string option"

record ('f, 't) performance_monitor =
  metrics_history :: "('f, 't) performance_metrics list"
  max_history :: int

text \<open>\<^verbatim>\<open>PerformanceMonitor(max_history)\<close>; the default is 100.\<close>

definition new_monitor :: "int \<Rightarrow> ('f, 't) performance_monitor" where
  "new_monitor cap = \<lparr>metrics_history = [], max_history = cap\<rparr>"

text \<open>The slice \<^verbatim>\<open>xs[start:]\<close>: a negative start counts from the end, and both
  kinds are clipped to the list.\<close>

definition slice_from :: "int \<Rightarrow> 'a list \<Rightarrow> 'a list" where
  "slice_from start xs =
    (if start < 0 then drop (nat (max (int (length xs) + start) 0)) xs
     else drop (nat start) xs)"

definition add_metrics ::
  "('f, 't) performance_monitor \<Rightarrow> ('f, 't) performance_metrics \<Rightarrow> ('f, 't) performance_monitor" where
  "add_metrics self metrics =
    (let history = metrics_history self @ [metrics]
     in if int (length history) > max_history self
        then self\<lparr>metrics_history := slice_from (- max_history self) history\<rparr>
        else self\<lparr>metrics_history := history\<rparr>)"

text \<open>
  What the wrapper reads from the system around one call: the clock and the resident
  memory (in MB) before and after, the CPU percentage after, and \<^verbatim>\<open>datetime.now()\<close>.
\<close>

record ('f, 't) probe =
  start_time :: 'f
  start_memory :: 'f
  end_time :: 'f
  end_memory :: 'f
  end_cpu :: 'f
  now :: 't

text \<open>
  \<^verbatim>\<open>measure_performance(operation_name)(func)\<close>. The wrapped function runs on
  the monitor and on the rest of the program's state \<open>s\<close>, and returns a value (\<open>Inr\<close>) or
  raises an exception (\<open>Inl\<close>); the exceptions are those of class \<^verbatim>\<open>Exception\<close>. The
  \<^verbatim>\<open>finally\<close> block runs on both paths, and the result of the wrapper is the
  function's: its value, or its exception raised again.
\<close>

definition measure_performance ::
  "'f pylib \<Rightarrow> ('f, 't) probe \<Rightarrow> string
    \<Rightarrow> (('f, 't) performance_monitor \<times> 's \<Rightarrow> (pyexn + 'a) \<times> ('f, 't) performance_monitor \<times> 's)
    \<Rightarrow> ('f, 't) performance_monitor \<times> 's \<Rightarrow> (pyexn + 'a) \<times> ('f, 't) performance_monitor \<times> 's" where
  "measure_performance lib probe operation_name func state =
    (let (result, self, s) = func state;
         metrics = \<lparr>timestamp = now probe,
                    operation = operation_name,
                    duration = fl_sub lib (end_time probe) (start_time probe),
                    memory_usage = fl_sub lib (end_memory probe) (start_memory probe),
                    cpu_usage = end_cpu probe,
                    success = (case result of Inl e \<Rightarrow> False | Inr r \<Rightarrow> True),
                    error_message = (case result of Inl e \<Rightarrow> Some (exn_str e) | Inr r \<Rightarrow> None)\<rparr>
     in (result, add_metrics self metrics, s))"

section \<open>EnhancedVectorStoreManager\<close>

text \<open>
  The manager's attributes and the persistent ChromaDB client at
  \<^verbatim>\<open>Config.CHROMADB_PATH\<close>: \<open>embeddings_set\<close> says that \<^verbatim>\<open>self.embeddings\<close>
  is set, \<open>vectorstore\<close> is the name of the collection that \<^verbatim>\<open>self.vectorstore\<close> is
  bound to (\<open>None\<close> before it is opened), and \<open>collections\<close> maps the name of each
  collection of the client to its entries, in the order they were added.
\<close>

record 'f store =
  embeddings_set :: bool
  vectorstore :: "string option"
  collections :: "string \<rightharpoonup> 'f document list"

text \<open>
  ChromaDB and langchain's \<^verbatim>\<open>Chroma\<close> wrapper are libraries. The model keeps of them
  what the manager relies on: opening a collection creates it, empty, when it is missing;
  \<^verbatim>\<open>add_documents\<close> appends the documents to the collection (the vectors, which the
  library computes through \<^verbatim>\<open>embed_documents\<close>, are not kept in the model); and
  \<^verbatim>\<open>similarity_search\<close> returns the \<open>k\<close> entries nearest to the query. The flags
  \<open>chroma_open_fails\<close>, \<open>chroma_add_fails\<close> and \<open>chroma_search_fails\<close> say which of these
  calls raise during one operation of the manager, and \<open>chroma_distance\<close> is the distance of
  an entry to a query.
\<close>

record ('f, 'd) chroma =
  chroma_open_fails :: bool
  chroma_add_fails :: bool
  chroma_search_fails :: bool
  chroma_distance :: "string \<Rightarrow> 'f document \<Rightarrow> 'd"

definition COLLECTION_NAME :: string where
  "COLLECTION_NAME = ''document_embeddings''"

definition DEFAULT_K_DOCUMENTS :: int where
  "DEFAULT_K_DOCUMENTS = 3"

definition entries :: "'f store \<Rightarrow> string \<Rightarrow> 'f document list" where
  "entries st name = (case collections st name of None \<Rightarrow> [] | Some docs \<Rightarrow> docs)"

definition chroma_get_or_create :: "'f store \<Rightarrow> string \<Rightarrow> 'f store" where
  "chroma_get_or_create st name =
    (case collections st name of
       None \<Rightarrow> st\<lparr>vectorstore := Some name, collections := (collections st)(name \<mapsto> [])\<rparr>
     | Some docs \<Rightarrow> st\<lparr>vectorstore := Some name\<rparr>)"

definition chroma_add_documents ::
  "('f, 'd) chroma \<Rightarrow> 'f store \<Rightarrow> 'f document list \<Rightarrow> pyexn + 'f store" where
  "chroma_add_documents chroma st docs =
    (case vectorstore st of
       None \<Rightarrow> Inl (ValueError ''no collection'')
     | Some name \<Rightarrow>
         if chroma_add_fails chroma then Inl (ValueError ''add_documents'')
         else Inr (st\<lparr>collections := (collections st)(name \<mapsto> entries st name @ docs)\<rparr>))"

definition chroma_similarity_search ::
  "('f, 'd::linorder) chroma \<Rightarrow> 'f store \<Rightarrow> string \<Rightarrow> int \<Rightarrow> pyexn + 'f document list" where
  "chroma_similarity_search chroma st query k =
    (case vectorstore st of
       None \<Rightarrow> Inl (ValueError ''no collection'')
     | Some name \<Rightarrow>
         if chroma_search_fails chroma then Inl (ValueError ''similarity_search'')
         else Inr (take (nat k) (sort_key (chroma_distance chroma query) (entries st name))))"

subsection \<open>initialize\_vectorstore\<close>

definition initialize_vectorstore ::
  "'f pylib \<Rightarrow> ('f, 'd) chroma \<Rightarrow> (string \<Rightarrow> ('f, 't) probe) \<Rightarrow> string
    \<Rightarrow> ('f, 't) performance_monitor \<times> 'f store
    \<Rightarrow> (pyexn + bool) \<times> ('f, 't) performance_monitor \<times> 'f store" where
  "initialize_vectorstore lib chroma probes collection_name =
    measure_performance lib (probes ''initialize_vectorstore'') ''initialize_vectorstore''
      (\<lambda>(monitor, st).
         if \<not> embeddings_set st then (Inr False, monitor, st)
         else if chroma_open_fails chroma then (Inr False, monitor, st\<lparr>vectorstore := None\<rparr>)
         else (Inr True, monitor, chroma_get_or_create st collection_name))"

text \<open>The auto-initialisation that opens \<^verbatim>\<open>add_documents_enhanced\<close> and
  \<^verbatim>\<open>search_with_metadata\<close>: whether a vector store is available afterwards.\<close>

definition auto_initialize ::
  "'f pylib \<Rightarrow> ('f, 'd) chroma \<Rightarrow> (string \<Rightarrow> ('f, 't) probe)
    \<Rightarrow> ('f, 't) performance_monitor \<times> 'f store
    \<Rightarrow> bool \<times> ('f, 't) performance_monitor \<times> 'f store" where
  "auto_initialize lib chroma probes state =
    (if vectorstore (snd state) = None then
       (let (success, monitor, st) = initialize_vectorstore lib chroma probes COLLECTION_NAME state
        in (success = Inr True \<and> vectorstore st \<noteq> None, monitor, st))
     else (True, state))"

subsection \<open>add\_documents\_enhanced\<close>

record 'f doc_info =
  info_total_chunks :: nat
  info_document_type :: "'f pyvalue"
  info_average_chunk_size :: 'f
  info_keywords_extracted :: bool
  info_structure_preserved :: nat

fun truthy :: "'f pylib \<Rightarrow> 'f pyvalue \<Rightarrow> bool" where
  "truthy lib PNone = False"
| "truthy lib (PBool b) = b"
| "truthy lib (PInt n) = (n \<noteq> 0)"
| "truthy lib (PFloat x) = fl_bool lib x"
| "truthy lib (PStr s) = (s \<noteq> [])"
| "truthy lib (PList xs) = (xs \<noteq> [])"
| "truthy lib (PDict kvs) = (kvs \<noteq> [])"
| "truthy lib (PObject tag) = True"

definition make_doc_info :: "'f pylib \<Rightarrow> 'f document list \<Rightarrow> 'f doc_info" where
  "make_doc_info lib documents =
    \<lparr>info_total_chunks = length documents,
     info_document_type =
       (case documents of
          [] \<Rightarrow> PStr ''unknown''
        | doc # others \<Rightarrow> dict_get (metadata doc) ''document_type'' (PStr ''unknown'')),
     info_average_chunk_size =
       (if documents \<noteq> []
        then fl_div lib (fl_of_int lib (sum_list (map (\<lambda>doc. int (length (page_content doc))) documents)))
               (fl_of_int lib (int (length documents)))
        else fl_of_int lib 0),
     info_keywords_extracted = list_ex (\<lambda>doc. ''keywords'' \<in> fst ` set (metadata doc)) documents,
     info_structure_preserved =
       length (filter (\<lambda>doc. truthy lib (dict_get (metadata doc) ''contains_structure'' (PBool False)))
                 documents)\<rparr>"

definition add_documents_enhanced ::
  "'f pylib \<Rightarrow> ('f, 'd) chroma \<Rightarrow> (string \<Rightarrow> ('f, 't) probe)
    \<Rightarrow> string \<Rightarrow> string \<Rightarrow> int \<Rightarrow> int
    \<Rightarrow> ('f, 't) performance_monitor \<times> 'f store
    \<Rightarrow> (pyexn + nat \<times> 'f doc_info) \<times> ('f, 't) performance_monitor \<times> 'f store" where
  "add_documents_enhanced lib chroma probes text filename chunk_size chunk_overlap state =
    (case validate_chunk_size chunk_size of
       (False, chunk_error) \<Rightarrow>
         (Inl (ValueError (''Chunk size invalide: '' @ format_optional chunk_error)), state)
     | (True, chunk_error) \<Rightarrow>
         measure_performance lib (probes ''add_documents'') ''add_documents''
           (\<lambda>state.
              (let (available, monitor, st) = auto_initialize lib chroma probes state
               in if \<not> available
                  then (Inl (ValueError ([CHR 0xC9] @ ''chec d'initialisation du VectorStore'')),
                        monitor, st)
                  else if \<not> embeddings_set st
                  then (Inl (ValueError (''Embeddings non initialis'' @ [e_acute] @ ''s'')), monitor, st)
                  else
                    (case split_documents_with_metadata lib text filename chunk_size chunk_overlap of
                       Inl e \<Rightarrow> (Inl e, monitor, st)
                     | Inr documents \<Rightarrow>
                         if documents = []
                         then (Inl (ValueError (''Aucun document g'' @ [e_acute] @ ''n'' @ [e_acute]
                                      @ ''r'' @ [e_acute] @ '' lors du d'' @ [e_acute] @ ''coupage'')),
                               monitor, st)
                         else
                           (case filter_complex_metadata lib documents of
                              Inl e \<Rightarrow> (Inl e, monitor, st)
                            | Inr filtered_documents \<Rightarrow>
                                (case chroma_add_documents chroma st filtered_documents of
                                   Inl e \<Rightarrow> (Inl e, monitor, st)
                                 | Inr st' \<Rightarrow>
                                     (Inr (length documents, make_doc_info lib documents),
                                      monitor, st'))))))
           state)"

subsection \<open>search\_with\_metadata\<close>

record 'f chunk_info =
  info_position :: "'f pyvalue"
  info_total :: "'f pyvalue"
  info_chunk_id :: "'f pyvalue"
  info_has_structure :: "'f pyvalue"
  info_keywords :: "'f pyvalue"

record 'f search_result =
  result_content :: string
  result_metadata :: "(string \<times> 'f pyvalue) list"
  relevance_score :: "'f option"
  result_chunk_info :: "'f chunk_info"

text \<open>A \<^verbatim>\<open>Document\<close> has no attribute \<^verbatim>\<open>relevance_score\<close>: the
  \<^verbatim>\<open>getattr\<close> returns its default.\<close>

definition enrich :: "'f document \<Rightarrow> 'f search_result" where
  "enrich doc =
    \<lparr>result_content = page_content doc,
     result_metadata = metadata doc,
     relevance_score = None,
     result_chunk_info =
       \<lparr>info_position = dict_get (metadata doc) ''chunk_position'' (PStr ''unknown''),
        info_total = dict_get (metadata doc) ''total_chunks'' (PInt 0),
        info_chunk_id = dict_get (metadata doc) ''chunk_id'' (PInt 0),
        info_has_structure = dict_get (metadata doc) ''contains_structure'' (PBool False),
        info_keywords = dict_get (metadata doc) ''keywords'' (PList [])\<rparr>\<rparr>"

definition search_with_metadata ::
  "'f pylib \<Rightarrow> ('f, 'd::linorder) chroma \<Rightarrow> (string \<Rightarrow> ('f, 't) probe)
    \<Rightarrow> string \<Rightarrow> int
    \<Rightarrow> ('f, 't) performance_monitor \<times> 'f store
    \<Rightarrow> (pyexn + 'f search_result list) \<times> ('f, 't) performance_monitor \<times> 'f store" where
  "search_with_metadata lib chroma probes query k state =
    (case validate_question query of
       (False, query_error) \<Rightarrow>
         (Inl (ValueError (''Requ'' @ [e_circ] @ ''te invalide: '' @ format_optional query_error)),
          state)
     | (True, query_error) \<Rightarrow>
         measure_performance lib (probes ''search_documents'') ''search_documents''
           (\<lambda>state.
              (let (available, monitor, st) = auto_initialize lib chroma probes state
               in if \<not> available then (Inr [], monitor, st)
                  else
                    (case chroma_similarity_search chroma st query k of
                       Inl e \<Rightarrow> (Inr [], monitor, st)
                     | Inr documents \<Rightarrow> (Inr (map enrich documents), monitor, st))))
           state)"

section \<open>An instance of the library and of the environment\<close>

text \<open>
  The closed examples below run the pipeline on an instance of the library. Its floats are
  the rationals, with exact arithmetic. Its splitter rejects an overlap larger than the
  chunk size and cuts the text every \<open>chunk_size\<close> characters: a text that fits in one
  chunk comes back whole, and an empty text gives no chunk, as with langchain's splitter.
  Its \<open>str\<close> is Python's on strings, \<^verbatim>\<open>None\<close> and booleans, and its
  \<open>json.dumps\<close> is Python's on the empty dict.
\<close>

definition example_split_text :: "string list \<Rightarrow> int \<Rightarrow> int \<Rightarrow> string \<Rightarrow> pyexn + string list" where
  "example_split_text seps chunk_size chunk_overlap text =
    (if chunk_size < chunk_overlap
     then Inl (ValueError ''Got a larger chunk overlap than chunk size'')
     else Inr (batches (nat chunk_size) text))"

definition example_str :: "rat pyvalue \<Rightarrow> string" where
  "example_str v =
    (case v of
       PStr s \<Rightarrow> s
     | PNone \<Rightarrow> ''None''
     | PBool b \<Rightarrow> (if b then ''True'' else ''False'')
     | _ \<Rightarrow> ''<object>'')"

definition example_json_dumps :: "rat pyvalue \<Rightarrow> pyexn + string" where
  "example_json_dumps v =
    (if v = PDict [] then Inr ''{}'' else Inl (TypeError ''Object is not JSON serializable''))"

definition example_lib :: "rat pylib" where
  "example_lib =
    \<lparr>lib_hash = (\<lambda>text. int (length text)),
     lib_str = example_str,
     lib_json_dumps = example_json_dumps,
     lib_split_text = example_split_text,
     fl_dec = (\<lambda>m e. of_int m / 10 ^ e),
     fl_of_int = of_int,
     fl_add = (+),
     fl_sub = (-),
     fl_mul = (*),
     fl_div = (/),
     fl_bool = (\<lambda>x. x \<noteq> 0)\<rparr>"

definition example_probes :: "string \<Rightarrow> (rat, nat) probe" where
  "example_probes name =
    \<lparr>start_time = 0, start_memory = 50, end_time = 1, end_memory = 51, end_cpu = 5, now = 0\<rparr>"

definition example_chroma :: "bool \<Rightarrow> bool \<Rightarrow> bool \<Rightarrow> (rat, nat) chroma" where
  "example_chroma open_fails add_fails search_fails =
    \<lparr>chroma_open_fails = open_fails,
     chroma_add_fails = add_fails,
     chroma_search_fails = search_fails,
     chroma_distance = (\<lambda>query doc. length (page_content doc))\<rparr>"

section \<open>Predicates of the statements\<close>

text \<open>
  An attempt of \<^verbatim>\<open>_call_api\<close> fails when the request raises, when the status is not
  200, or when the body of a 200 response is unusable (\<^verbatim>\<open>response.json()\<close> or
  \<^verbatim>\<open>embeddings[0]\<close> raises).
\<close>

definition attempt_fails :: "'f http \<Rightarrow> bool" where
  "attempt_fails r =
    (case r of
       Raises \<Rightarrow> True
     | Response status_code body \<Rightarrow>
         status_code \<noteq> 200 \<or>
         (case body of None \<Rightarrow> True | Some embeddings \<Rightarrow> parse_embeddings embeddings = None))"

text \<open>
  What the status-200 branch of an attempt returns, if anything; and the four ways an
  attempt can end, after the branches of \<^verbatim>\<open>_call_api\<close>: \<open>Success\<close> (a usable 200
  response), \<open>Busy\<close> (503), \<open>Refused\<close> (any other status) and \<open>Failure\<close> (an exception:
  the request raised, or the body of a 200 response is unusable).
\<close>

definition accepted :: "'f http \<Rightarrow> 'f pyvalue list option" where
  "accepted r =
    (case r of
       Raises \<Rightarrow> None
     | Response status_code body \<Rightarrow>
         if status_code = 200 then
           (case body of None \<Rightarrow> None | Some embeddings \<Rightarrow> parse_embeddings embeddings)
         else None)"

datatype outcome = Success | Busy | Refused | Failure

definition outcome_of :: "'f http \<Rightarrow> outcome" where
  "outcome_of r =
    (case r of
       Raises \<Rightarrow> Failure
     | Response status_code body \<Rightarrow>
         if status_code = 200 then
           (case body of
              None \<Rightarrow> Failure
            | Some embeddings \<Rightarrow>
                (case parse_embeddings embeddings of None \<Rightarrow> Failure | Some r \<Rightarrow> Success))
         else if status_code = 503 then Busy
         else Refused)"


text \<open>
  A vector of the dimension of the model, and a response that keeps the contract of the
  endpoint for the texts sent: status 200 and a body that is a list of one such vector per
  text.
\<close>

definition is_vector :: "'f pyvalue \<Rightarrow> bool" where
  "is_vector v = (case v of PList xs \<Rightarrow> length xs = 384 | _ \<Rightarrow> False)"

definition well_formed_response :: "string list \<Rightarrow> 'f http \<Rightarrow> bool" where
  "well_formed_response texts r =
    (case r of
       Response status_code (Some (PList vectors)) \<Rightarrow>
         status_code = 200 \<and> length vectors = length texts \<and> list_all is_vector vectors
     | _ \<Rightarrow> False)"

text \<open>How \<^verbatim>\<open>_filter_complex_metadata\<close> relates an item of a metadata dict to the
  item it stores, and a document to the document it returns.\<close>

definition item_filtered :: "'f pylib \<Rightarrow> string \<times> 'f pyvalue \<Rightarrow> string \<times> 'f pyvalue \<Rightarrow> bool" where
  "item_filtered lib item item' =
    (fst item' = fst item \<and> filter_value lib (snd item) = Inr (snd item'))"

definition doc_filtered :: "'f pylib \<Rightarrow> 'f document \<Rightarrow> 'f document \<Rightarrow> bool" where
  "doc_filtered lib doc doc' =
    (page_content doc' = page_content doc \<and>
     list_all2 (item_filtered lib) (metadata doc) (metadata doc'))"

text \<open>
  The auto-initialisation fails when no vector store is open and either the embeddings are
  missing or ChromaDB raises; the collection that a search reads is the one the store is
  bound to, or the default one that the auto-initialisation opens.
\<close>

definition auto_open_fails :: "('f, 'd) chroma \<Rightarrow> 'f store \<Rightarrow> bool" where
  "auto_open_fails chroma st =
    (vectorstore st = None \<and> (\<not> embeddings_set st \<or> chroma_open_fails chroma))"

definition searched_collection :: "'f store \<Rightarrow> string" where
  "searched_collection st =
    (case vectorstore st of None \<Rightarrow> COLLECTION_NAME | Some name \<Rightarrow> name)"

subsection \<open>Inputs of the closed examples\<close>

definition example_text :: string where
  "example_text = ''Introduction. The quick brown fox jumps over the lazy dog and keeps running through the forest until night. 1. First item of the list: it is short. Then the story goes on with more words about foxes and dogs, rivers and hills, and nothing else of note.''"

definition example_docs :: "rat document list" where
  "example_docs =
    [\<lparr>page_content = ''Hello world'',
      metadata = [(''filename'', PStr ''a.txt''), (''chunk_id'', PInt 0), (''score'', PFloat (1 / 2)),
                  (''contains_structure'', PBool False), (''parent'', PNone),
                  (''keywords'', PList [PStr ''hello'', PStr ''world'']),
                  (''extra'', PDict []), (''shape'', PObject ''tuple'')]\<rparr>]"

text \<open>A manager just built: the embeddings are set, no vector store is open, and the
  client has no collection.\<close>

definition new_store :: "rat store" where
  "new_store = \<lparr>embeddings_set = True, vectorstore = None, collections = Map.empty\<rparr>"

text \<open>A remote service that is busy on every even request and answers every odd one
  with one vector of zeros per text.\<close>

definition example_remote :: "rat remote" where
  "example_remote i payload =
    (if even i then Response 503 None
     else Response 200 (Some (PList (map (\<lambda>t. PList (replicate 384 (PFloat 0))) payload))))"


section \<open>Type detection\<close>

lemma max_from_three:
  "max_from (ka, a) [(kt, t), (kl, l)] =
     (if t \<le> a \<and> l \<le> a then (ka, a) else if l \<le> t then (kt, t) else (kl, l))"
  by auto

text \<open>
  C2 (as amended). With \<open>a\<close>, \<open>t\<close> and \<open>l\<close> the numbers of academic, technical and legal
  keywords found in the lower-cased text and \<open>m\<close> their maximum, detection returns
  \<^verbatim>\<open>default\<close> when \<open>m\<close> is below 2, and otherwise the first type, in the order
  academic, technical, legal, whose count is \<open>m\<close>: a type that alone holds the maximum is
  returned, and a tie for the maximum goes to the earlier type, not to \<^verbatim>\<open>default\<close>.
\<close>

theorem detect_document_type_first_maximum:
  "detect_document_type txt =
    (let a = keyword_score academic_keywords (lower txt);
         t = keyword_score technical_keywords (lower txt);
         l = keyword_score legal_keywords (lower txt);
         m = max a (max t l)
     in if m < 2 then ''default''
        else if a = m then ''academic''
        else if t = m then ''technical''
        else ''legal'')"
  unfolding detect_document_type_def Let_def py_max_def
  by (simp add: max_from_three)

text \<open>The theorem at a legal text: two legal keywords, no other.\<close>

theorem detect_document_type_first_maximum_witness:
  "detect_document_type ''Article 12: la clause est nulle'' = ''legal''"
proof -
  have "keyword_score academic_keywords (lower ''Article 12: la clause est nulle'') = 0"
    by code_simp
  moreover have "keyword_score technical_keywords (lower ''Article 12: la clause est nulle'') = 0"
    by code_simp
  moreover have "keyword_score legal_keywords (lower ''Article 12: la clause est nulle'') = 2"
    by code_simp
  ultimately show ?thesis
    using detect_document_type_first_maximum [of "''Article 12: la clause est nulle''"]
    by (simp add: Let_def)
qed

text \<open>
  C2 as stated fails: in \<^verbatim>\<open>abstract introduction api import\<close> the academic and the
  technical keywords tie at 2, the maximum, and the text is classified academic.
\<close>

theorem detect_document_type_tie_counterexample:
  "keyword_score academic_keywords (lower ''abstract introduction api import'') = 2 \<and>
   keyword_score technical_keywords (lower ''abstract introduction api import'') = 2 \<and>
   keyword_score legal_keywords (lower ''abstract introduction api import'') = 0 \<and>
   detect_document_type ''abstract introduction api import'' = ''academic''"
  by code_simp

section \<open>The fallback embeddings\<close>






section \<open>Chunk metadata\<close>

lemma split_documents_nth:
  assumes "split_documents_with_metadata lib txt filename chunk_size chunk_overlap = Inr docs"
  shows "\<exists>chunks. length docs = length chunks \<and>
          (\<forall>i<length docs. docs ! i =
             chunk_document filename (detect_document_type txt) (length chunks) (i, chunks ! i))"
  using assms
  by (auto simp: split_documents_with_metadata_def Let_def nth_enumerate_eq split: sum.splits)

lemma chunk_document_fields:
  "map_of (metadata (chunk_document filename doc_type n (i, chunk) :: 'f document)) ''chunk_id''
     = Some (PInt (int i))"
  "map_of (metadata (chunk_document filename doc_type n (i, chunk) :: 'f document)) ''total_chunks''
     = Some (PInt (int n))"
  "map_of (metadata (chunk_document filename doc_type n (i, chunk) :: 'f document)) ''chunk_position''
     = Some (PStr (chunk_position i n))"
  by (simp_all add: Let_def update_conv')

text \<open>
  C1 (as amended). Whenever \<^verbatim>\<open>split_documents_with_metadata\<close> returns documents,
  the document at index \<open>i\<close> of the output has \<^verbatim>\<open>chunk_id\<close> \<open>i\<close>, so the ids are
  0..n-1 in output order for the \<open>n\<close> documents returned; every document has
  \<^verbatim>\<open>total_chunks\<close> \<open>n\<close>; and \<^verbatim>\<open>chunk_position\<close> is \<^verbatim>\<open>start\<close> for
  the id 0, \<^verbatim>\<open>end\<close> for the id \<open>n - 1\<close> when that id is not 0, and
  \<^verbatim>\<open>middle\<close> for every other id. A single chunk is a \<^verbatim>\<open>start\<close>.
\<close>

theorem chunk_ids_and_positions:
  assumes "split_documents_with_metadata lib txt filename chunk_size chunk_overlap = Inr docs"
  shows "\<forall>i<length docs.
           map_of (metadata (docs ! i)) ''chunk_id'' = Some (PInt (int i)) \<and>
           map_of (metadata (docs ! i)) ''total_chunks'' = Some (PInt (int (length docs))) \<and>
           map_of (metadata (docs ! i)) ''chunk_position'' =
             Some (PStr (if i = 0 then ''start''
                         else if i = length docs - 1 then ''end''
                         else ''middle''))"
proof (intro allI impI)
  fix i assume i: "i < length docs"
  from split_documents_nth [OF assms] obtain chunks where
    n: "length docs = length chunks" and
    d: "docs ! i = chunk_document filename (detect_document_type txt) (length chunks) (i, chunks ! i)"
    using i by blast
  have "chunk_position i (length docs) =
          (if i = 0 then ''start'' else if i = length docs - 1 then ''end'' else ''middle'')"
    using i by (auto simp: chunk_position_def)
  then show "map_of (metadata (docs ! i)) ''chunk_id'' = Some (PInt (int i)) \<and>
           map_of (metadata (docs ! i)) ''total_chunks'' = Some (PInt (int (length docs))) \<and>
           map_of (metadata (docs ! i)) ''chunk_position'' =
             Some (PStr (if i = 0 then ''start''
                         else if i = length docs - 1 then ''end''
                         else ''middle''))"
    unfolding d chunk_document_fields n by simp
qed

lemma example_chunks:
  "smart_split example_lib example_text 100 20 True =
     Inr [''Introduction.'' @ [nl] @ ''The quick brown fox jumps over the lazy dog and keeps running through the forest until'',
          ''night. 1.'' @ [nl] @ ''First item of the list: it is short.'' @ [nl] @ ''Then the story goes on with more words about foxes a'',
          ''nd dogs, rivers and hills, and nothing else of note.'']"
  by code_simp

text \<open>The theorem at a text of 252 characters cut into three chunks.\<close>

theorem chunk_ids_and_positions_witness:
  "(case split_documents_with_metadata example_lib example_text ''report.txt'' 100 20 of
      Inl e \<Rightarrow> False
    | Inr docs \<Rightarrow>
        length docs = 3 \<and>
        map (\<lambda>d. map_of (metadata d) ''chunk_id'') docs
          = [Some (PInt 0), Some (PInt 1), Some (PInt 2)] \<and>
        map (\<lambda>d. map_of (metadata d) ''total_chunks'') docs
          = [Some (PInt 3), Some (PInt 3), Some (PInt 3)] \<and>
        map (\<lambda>d. map_of (metadata d) ''chunk_position'') docs
          = [Some (PStr ''start''), Some (PStr ''middle''), Some (PStr ''end'')])"
proof -
  obtain docs where
    docs: "split_documents_with_metadata example_lib example_text ''report.txt'' 100 20 = Inr docs"
    and len: "length docs = 3"
    by (simp add: split_documents_with_metadata_def example_chunks Let_def)
  from len obtain d0 d1 d2 where ds: "docs = [d0, d1, d2]"
    by (auto simp: numeral_3_eq_3 length_Suc_conv)
  have "0 < length docs" "1 < length docs" "2 < length docs"
    using len by simp_all
  from this [THEN chunk_ids_and_positions [OF docs, rule_format]]
  show ?thesis
    unfolding docs by (simp add: ds)
qed

text \<open>
  C1 as stated fails on a text that gives one chunk: its id 0 is also
  \<^verbatim>\<open>total_chunks - 1\<close>, and its position is \<^verbatim>\<open>start\<close>, not
  \<^verbatim>\<open>end\<close>.
\<close>

theorem single_chunk_position_counterexample:
  "split_documents_with_metadata example_lib ''Hello world'' ''a.txt'' 1000 200 =
     Inr [\<lparr>page_content = ''Hello world'',
           metadata = [(''filename'', PStr ''a.txt''), (''chunk_id'', PInt 0),
                       (''total_chunks'', PInt 1), (''document_type'', PStr ''default''),
                       (''chunk_size'', PInt 11), (''chunk_position'', PStr ''start''),
                       (''contains_structure'', PBool False),
                       (''keywords'', PList [PStr ''hello'', PStr ''world''])]\<rparr>] \<and>
   (0 :: int) = 1 - 1 \<and> ''start'' \<noteq> ''end''"
  by code_simp

section \<open>Metadata sanitisation\<close>

lemma update_fresh: "key \<notin> fst ` set al \<Longrightarrow> AList.update key v al = al @ [(key, v)]"
  by (induction al) auto

lemma filter_items_distinct:
  assumes "filter_items lib items acc = Inr fm"
    and "distinct (map fst items)"
    and "fst ` set items \<inter> fst ` set acc = {}"
  shows "\<exists>new. fm = acc @ new \<and> list_all2 (item_filtered lib) items new"
  using assms
proof (induction items arbitrary: acc)
  case Nil
  then show ?case by simp
next
  case (Cons item items)
  obtain key v where item: "item = (key, v)" by (cases item)
  from Cons.prems(1) item obtain v' where v': "filter_value lib v = Inr v'"
    and rest: "filter_items lib items (AList.update key v' acc) = Inr fm"
    by (auto split: sum.splits)
  have fresh: "key \<notin> fst ` set acc" using Cons.prems(3) item by auto
  then have upd: "AList.update key v' acc = acc @ [(key, v')]" by (rule update_fresh)
  have "distinct (map fst items)" using Cons.prems(2) by simp
  moreover have "fst ` set items \<inter> fst ` set (acc @ [(key, v')]) = {}"
    using Cons.prems(2,3) item by auto
  ultimately obtain new where
    "fm = (acc @ [(key, v')]) @ new" "list_all2 (item_filtered lib) items new"
    using Cons.IH [of "acc @ [(key, v')]"] rest upd by auto
  moreover have "item_filtered lib item (key, v')"
    using item v' by (simp add: item_filtered_def)
  ultimately show ?case by auto
qed

lemma filter_items_total:
  assumes "\<forall>item\<in>set items. \<exists>v'. filter_value lib (snd item) = Inr v'"
  shows "\<exists>fm. filter_items lib items acc = Inr fm"
  using assms
proof (induction items arbitrary: acc)
  case Nil
  then show ?case by simp
next
  case (Cons item items)
  then show ?case by (cases item) (auto split: sum.splits)
qed

lemma filter_complex_metadata_rel:
  assumes "filter_complex_metadata lib docs = Inr filtered"
    and "\<forall>doc\<in>set docs. distinct (map fst (metadata doc))"
  shows "list_all2 (doc_filtered lib) docs filtered"
  using assms
proof (induction docs arbitrary: filtered)
  case Nil
  then show ?case by simp
next
  case (Cons doc docs)
  from Cons.prems(1) obtain fm rest where fm: "filter_items lib (metadata doc) [] = Inr fm"
    and rest: "filter_complex_metadata lib docs = Inr rest"
    and filtered: "filtered = \<lparr>page_content = page_content doc, metadata = fm\<rparr> # rest"
    by (auto split: sum.splits)
  have items: "list_all2 (item_filtered lib) (metadata doc) fm"
    using filter_items_distinct [OF fm] Cons.prems(2) by auto
  have "list_all2 (doc_filtered lib) docs rest"
    using Cons.IH [OF rest] Cons.prems(2) by simp
  moreover have "doc_filtered lib doc \<lparr>page_content = page_content doc, metadata = fm\<rparr>"
    using items by (simp add: doc_filtered_def)
  ultimately show ?case using filtered by simp
qed

lemma filter_value_cases:
  assumes "filter_value lib v = Inr v'"
  shows "storable v' \<and> (storable v \<longrightarrow> v' = v) \<and>
         (\<forall>xs. v = PList xs \<longrightarrow> v' = PStr (join '', '' (map (lib_str lib) xs))) \<and>
         (\<forall>kvs. v = PDict kvs \<longrightarrow> (\<exists>s. lib_json_dumps lib v = Inr s \<and> v' = PStr s)) \<and>
         (\<forall>tag. v = PObject tag \<longrightarrow> v' = PStr (lib_str lib v))"
  using assms by (cases v) (auto simp: filter_value_def split: sum.splits)

lemma item_filtered_keys:
  "list_all2 (item_filtered lib) md md' \<Longrightarrow> map fst md' = map fst md"
  by (induction rule: list_all2_induct) (auto simp: item_filtered_def)

lemma item_filtered_map_of:
  assumes rel: "list_all2 (item_filtered lib) md md'" and d: "distinct (map fst md)"
    and v: "map_of md key = Some v"
  shows "\<exists>v'. map_of md' key = Some v' \<and> filter_value lib v = Inr v'"
proof -
  from v have "(key, v) \<in> set md" by (rule map_of_SomeD)
  then obtain j where j: "j < length md" "md ! j = (key, v)" by (auto simp: in_set_conv_nth)
  have len: "length md' = length md" using rel by (rule list_all2_lengthD [symmetric])
  have "item_filtered lib (md ! j) (md' ! j)" using rel j(1) by (rule list_all2_nthD)
  then have "fst (md' ! j) = key" "filter_value lib v = Inr (snd (md' ! j))"
    using j(2) by (simp_all add: item_filtered_def)
  moreover have "(fst (md' ! j), snd (md' ! j)) \<in> set md'" using j(1) len by simp
  moreover have "distinct (map fst md')" using item_filtered_keys [OF rel] d by simp
  ultimately show ?thesis by auto
qed

text \<open>The metadata that the splitter builds: its keys are distinct and none of its values
  is a dict.\<close>

lemma chunk_document_metadata:
  "distinct (map fst (metadata (chunk_document filename doc_type n (i, chunk) :: 'f document))) \<and>
   (\<forall>item\<in>set (metadata (chunk_document filename doc_type n (i, chunk) :: 'f document)).
      \<forall>kvs. snd item \<noteq> PDict kvs)"
  by (auto simp: Let_def)

lemma split_documents_filter_returns:
  assumes "split_documents_with_metadata lib txt filename chunk_size chunk_overlap = Inr docs"
  shows "\<exists>filtered. filter_complex_metadata lib docs = Inr filtered"
proof -
  from split_documents_nth [OF assms] obtain chunks where
    d: "\<forall>i<length docs. docs ! i =
          chunk_document filename (detect_document_type txt) (length chunks) (i, chunks ! i)"
    by blast
  have "\<forall>doc\<in>set docs. \<forall>item\<in>set (metadata doc). \<exists>v'. filter_value lib (snd item) = Inr v'"
  proof (intro ballI)
    fix doc item assume "doc \<in> set docs" and item: "item \<in> set (metadata doc)"
    then obtain i where "i < length docs" "doc = docs ! i" by (auto simp: in_set_conv_nth)
    with d have "doc = chunk_document filename (detect_document_type txt) (length chunks) (i, chunks ! i)"
      by simp
    with item chunk_document_metadata have "\<forall>kvs. snd item \<noteq> PDict kvs" by blast
    then show "\<exists>v'. filter_value lib (snd item) = Inr v'"
      by (cases "snd item") (auto simp: filter_value_def)
  qed
  then show ?thesis
  proof (induction docs)
    case Nil
    then show ?case by simp
  next
    case (Cons doc docs)
    then obtain fm rest where "filter_items lib (metadata doc) [] = Inr fm"
      "filter_complex_metadata lib docs = Inr rest"
      using filter_items_total [of "metadata doc" lib "[]"] by auto
    then show ?case by simp
  qed
qed

text \<open>
  C8. On documents whose metadata are dicts (the keys of one dict are distinct), whenever
  \<^verbatim>\<open>_filter_complex_metadata\<close> returns, every value it stores is a str, an int, a
  float, a bool or None; the value stored under a key is the input value itself when that was
  already of those types, the \<^verbatim>\<open>', '\<close>-joined string of the elements' \<^verbatim>\<open>str\<close>
  for a list, the \<^verbatim>\<open>json.dumps\<close> string for a dict, and the \<^verbatim>\<open>str\<close> form for
  any other value. It returns whenever \<^verbatim>\<open>json.dumps\<close> accepts each dict value
  (otherwise the \<^verbatim>\<open>TypeError\<close> of \<^verbatim>\<open>json.dumps\<close> propagates), and so on every
  list of documents that \<^verbatim>\<open>split_documents_with_metadata\<close> returns.
\<close>

theorem filter_complex_metadata_storable:
  assumes keys: "list_all (\<lambda>doc. distinct (map fst (metadata doc))) docs"
  shows "(\<forall>filtered. filter_complex_metadata lib docs = Inr filtered \<longrightarrow>
            length filtered = length docs \<and>
            (\<forall>i<length docs.
               (\<forall>key v'. (key, v') \<in> set (metadata (filtered ! i)) \<longrightarrow> storable v') \<and>
               (\<forall>key v. map_of (metadata (docs ! i)) key = Some v \<longrightarrow>
                  (\<exists>v'. map_of (metadata (filtered ! i)) key = Some v' \<and>
                        (storable v \<longrightarrow> v' = v) \<and>
                        (\<forall>xs. v = PList xs \<longrightarrow> v' = PStr (join '', '' (map (lib_str lib) xs))) \<and>
                        (\<forall>kvs. v = PDict kvs \<longrightarrow> (\<exists>s. lib_json_dumps lib v = Inr s \<and> v' = PStr s)) \<and>
                        (\<forall>tag. v = PObject tag \<longrightarrow> v' = PStr (lib_str lib v)))))) \<and>
         (list_all (\<lambda>doc. list_all (\<lambda>item. \<forall>kvs. snd item = PDict kvs \<longrightarrow>
                                       (\<exists>s. lib_json_dumps lib (snd item) = Inr s))
                      (metadata doc)) docs \<longrightarrow>
            (\<exists>filtered. filter_complex_metadata lib docs = Inr filtered)) \<and>
         ((\<exists>txt filename chunk_size chunk_overlap.
             split_documents_with_metadata lib txt filename chunk_size chunk_overlap = Inr docs) \<longrightarrow>
            (\<exists>filtered. filter_complex_metadata lib docs = Inr filtered))"
proof (intro conjI allI impI)
  fix filtered assume f: "filter_complex_metadata lib docs = Inr filtered"
  have rel: "list_all2 (doc_filtered lib) docs filtered"
    using filter_complex_metadata_rel [OF f] keys by (simp add: list_all_iff)
  then show "length filtered = length docs" by (simp add: list_all2_lengthD)
  fix i assume i: "i < length docs"
  have di: "doc_filtered lib (docs ! i) (filtered ! i)" using rel i by (rule list_all2_nthD)
  then have md: "list_all2 (item_filtered lib) (metadata (docs ! i)) (metadata (filtered ! i))"
    by (simp add: doc_filtered_def)
  have dist: "distinct (map fst (metadata (docs ! i)))"
    using keys i by (simp add: list_all_length)
  {
    fix key v' assume "(key, v') \<in> set (metadata (filtered ! i))"
    then obtain j where j: "j < length (metadata (filtered ! i))"
      "metadata (filtered ! i) ! j = (key, v')"
      by (auto simp: in_set_conv_nth)
    then have "item_filtered lib (metadata (docs ! i) ! j) (key, v')"
      using md by (metis list_all2_nthD2)
    then show "storable v'"
      using filter_value_cases by (auto simp: item_filtered_def)
  }
  {
    fix key v assume "map_of (metadata (docs ! i)) key = Some v"
    from item_filtered_map_of [OF md dist this] obtain v' where
      v': "map_of (metadata (filtered ! i)) key = Some v'" "filter_value lib v = Inr v'" by blast
    from filter_value_cases [OF v'(2)] v'(1)
    show "\<exists>v'. map_of (metadata (filtered ! i)) key = Some v' \<and>
                (storable v \<longrightarrow> v' = v) \<and>
                (\<forall>xs. v = PList xs \<longrightarrow> v' = PStr (join '', '' (map (lib_str lib) xs))) \<and>
                (\<forall>kvs. v = PDict kvs \<longrightarrow> (\<exists>s. lib_json_dumps lib v = Inr s \<and> v' = PStr s)) \<and>
                (\<forall>tag. v = PObject tag \<longrightarrow> v' = PStr (lib_str lib v))"
      by auto
  }
next
  assume "list_all (\<lambda>doc. list_all (\<lambda>item. \<forall>kvs. snd item = PDict kvs \<longrightarrow>
                                       (\<exists>s. lib_json_dumps lib (snd item) = Inr s))
                      (metadata doc)) docs"
  then show "\<exists>filtered. filter_complex_metadata lib docs = Inr filtered"
  proof (induction docs)
    case Nil
    then show ?case by simp
  next
    case (Cons doc docs)
    have "\<forall>item\<in>set (metadata doc). \<exists>v'. filter_value lib (snd item) = Inr v'"
    proof
      fix item assume "item \<in> set (metadata doc)"
      then have "\<forall>kvs. snd item = PDict kvs \<longrightarrow> (\<exists>s. lib_json_dumps lib (snd item) = Inr s)"
        using Cons.prems by (auto simp: list_all_iff)
      then show "\<exists>v'. filter_value lib (snd item) = Inr v'"
        by (cases "snd item") (auto simp: filter_value_def)
    qed
    from filter_items_total [OF this] obtain fm where "filter_items lib (metadata doc) [] = Inr fm"
      by blast
    moreover obtain rest where "filter_complex_metadata lib docs = Inr rest"
      using Cons by auto
    ultimately show ?case by simp
  qed
next
  assume "\<exists>txt filename chunk_size chunk_overlap.
             split_documents_with_metadata lib txt filename chunk_size chunk_overlap = Inr docs"
  then show "\<exists>filtered. filter_complex_metadata lib docs = Inr filtered"
    using split_documents_filter_returns by blast
qed

lemma example_docs_filtered:
  "filter_complex_metadata example_lib example_docs =
    Inr [\<lparr>page_content = ''Hello world'',
          metadata = [(''filename'', PStr ''a.txt''), (''chunk_id'', PInt 0), (''score'', PFloat (1 / 2)),
                      (''contains_structure'', PBool False), (''parent'', PNone),
                      (''keywords'', PStr ''hello, world''),
                      (''extra'', PStr ''{}''), (''shape'', PStr ''<object>'')]\<rparr>]"
  by (simp add: example_docs_def filter_value_def example_lib_def example_str_def
      example_json_dumps_def)

text \<open>The theorem at a document whose metadata hold a value of every kind.\<close>

theorem filter_complex_metadata_storable_witness:
  "list_all (\<lambda>doc. distinct (map fst (metadata doc))) example_docs \<and>
   (\<exists>filtered. filter_complex_metadata example_lib example_docs = Inr filtered \<and>
      length filtered = 1 \<and>
      list_all (\<lambda>item. storable (snd item)) (metadata (filtered ! 0)) \<and>
      map_of (metadata (filtered ! 0)) ''chunk_id'' = Some (PInt 0) \<and>
      map_of (metadata (filtered ! 0)) ''keywords'' = Some (PStr ''hello, world'') \<and>
      map_of (metadata (filtered ! 0)) ''extra'' = Some (PStr ''{}'') \<and>
      map_of (metadata (filtered ! 0)) ''shape'' = Some (PStr ''<object>''))"
proof -
  have keys: "list_all (\<lambda>doc. distinct (map fst (metadata doc))) example_docs"
    by (simp add: example_docs_def)
  note t = filter_complex_metadata_storable [OF keys, of example_lib, THEN conjunct1, rule_format,
      OF example_docs_filtered]
  have len: "length example_docs = 1" by (simp add: example_docs_def)
  from t have "\<forall>key v'. (key, v') \<in> set (metadata ([\<lparr>page_content = ''Hello world'',
          metadata = [(''filename'', PStr ''a.txt''), (''chunk_id'', PInt 0), (''score'', PFloat (1 / 2)),
                      (''contains_structure'', PBool False), (''parent'', PNone),
                      (''keywords'', PStr ''hello, world''),
                      (''extra'', PStr ''{}''), (''shape'', PStr ''<object>'')]\<rparr>] ! 0)) \<longrightarrow> storable (v' :: rat pyvalue)"
    using len by simp
  then show ?thesis
    using keys by (simp add: example_docs_filtered)
qed

text \<open>
  C10. On documents whose metadata are dicts, the documents that
  \<^verbatim>\<open>_filter_complex_metadata\<close> returns are as many as its input, in the same order;
  each has the \<^verbatim>\<open>page_content\<close> of the input document, the same metadata keys in
  the same order, and under every key whose input value is a str, an int, a float, a bool or
  None, that same value.
\<close>

theorem filter_complex_metadata_frame:
  assumes keys: "list_all (\<lambda>doc. distinct (map fst (metadata doc))) docs"
    and f: "filter_complex_metadata lib docs = Inr filtered"
  shows "length filtered = length docs \<and>
         (\<forall>i<length docs.
            page_content (filtered ! i) = page_content (docs ! i) \<and>
            map fst (metadata (filtered ! i)) = map fst (metadata (docs ! i)) \<and>
            (\<forall>key v. map_of (metadata (docs ! i)) key = Some v \<and> storable v \<longrightarrow>
                      map_of (metadata (filtered ! i)) key = Some v))"
proof (intro conjI allI impI)
  have rel: "list_all2 (doc_filtered lib) docs filtered"
    using filter_complex_metadata_rel [OF f] keys by (simp add: list_all_iff)
  then show "length filtered = length docs" by (simp add: list_all2_lengthD)
  fix i assume i: "i < length docs"
  have di: "doc_filtered lib (docs ! i) (filtered ! i)" using rel i by (rule list_all2_nthD)
  then show "page_content (filtered ! i) = page_content (docs ! i)"
    by (simp add: doc_filtered_def)
  from di have md: "list_all2 (item_filtered lib) (metadata (docs ! i)) (metadata (filtered ! i))"
    by (simp add: doc_filtered_def)
  then show "map fst (metadata (filtered ! i)) = map fst (metadata (docs ! i))"
    by (rule item_filtered_keys)
  have dist: "distinct (map fst (metadata (docs ! i)))"
    using keys i by (simp add: list_all_length)
  fix key v assume "map_of (metadata (docs ! i)) key = Some v \<and> storable v"
  then have v: "map_of (metadata (docs ! i)) key = Some v" and s: "storable v" by simp_all
  from item_filtered_map_of [OF md dist v] obtain v' where
    v': "map_of (metadata (filtered ! i)) key = Some v'" "filter_value lib v = Inr v'" by blast
  then show "map_of (metadata (filtered ! i)) key = Some v"
    using s by (simp add: filter_value_def)
qed

text \<open>The theorem at the same document: the content, the keys and the five scalar values
  are kept.\<close>

theorem filter_complex_metadata_frame_witness:
  "list_all (\<lambda>doc. distinct (map fst (metadata doc))) example_docs \<and>
   (\<exists>filtered. filter_complex_metadata example_lib example_docs = Inr filtered \<and>
      length filtered = 1 \<and>
      page_content (filtered ! 0) = ''Hello world'' \<and>
      map fst (metadata (filtered ! 0)) =
        [''filename'', ''chunk_id'', ''score'', ''contains_structure'', ''parent'', ''keywords'',
         ''extra'', ''shape''] \<and>
      map_of (metadata (filtered ! 0)) ''filename'' = Some (PStr ''a.txt'') \<and>
      map_of (metadata (filtered ! 0)) ''chunk_id'' = Some (PInt 0) \<and>
      map_of (metadata (filtered ! 0)) ''score'' = Some (PFloat (1 / 2)) \<and>
      map_of (metadata (filtered ! 0)) ''contains_structure'' = Some (PBool False) \<and>
      map_of (metadata (filtered ! 0)) ''parent'' = Some PNone)"
proof -
  have keys: "list_all (\<lambda>doc. distinct (map fst (metadata doc))) example_docs"
    by (simp add: example_docs_def)
  obtain filtered where f: "filter_complex_metadata example_lib example_docs = Inr filtered"
    using example_docs_filtered by blast
  note t = filter_complex_metadata_frame [OF keys f]
  have i: "0 < length example_docs" by (simp add: example_docs_def)
  from t have len: "length filtered = 1" by (simp add: example_docs_def)
  from t i have c: "page_content (filtered ! 0) = page_content (example_docs ! 0)"
    and k: "map fst (metadata (filtered ! 0)) = map fst (metadata (example_docs ! 0))"
    and v: "\<And>key v. map_of (metadata (example_docs ! 0)) key = Some v \<Longrightarrow> storable v \<Longrightarrow>
              map_of (metadata (filtered ! 0)) key = Some v"
    by blast+
  have "map_of (metadata (filtered ! 0)) ''filename'' = Some (PStr ''a.txt'')"
       "map_of (metadata (filtered ! 0)) ''chunk_id'' = Some (PInt 0)"
       "map_of (metadata (filtered ! 0)) ''score'' = Some (PFloat (1 / 2))"
       "map_of (metadata (filtered ! 0)) ''contains_structure'' = Some (PBool False)"
       "map_of (metadata (filtered ! 0)) ''parent'' = Some PNone"
    by (rule v; simp add: example_docs_def)+
  then show ?thesis
    using keys f len c k by (simp add: example_docs_def)
qed

section \<open>The retry policy\<close>


lemma call_api_from_result:
  "fst (call_api_from lib remote n texts m a) =
    (if a < m then
       (case outcome_of (remote (n + a) texts) of
          Success \<Rightarrow> the (accepted (remote (n + a) texts))
        | Busy \<Rightarrow> fst (call_api_from lib remote n texts m (a + 1))
        | Refused \<Rightarrow> generate_fake_embeddings lib texts
        | Failure \<Rightarrow>
            if a + 1 < m then fst (call_api_from lib remote n texts m (a + 1))
            else generate_fake_embeddings lib texts)
     else generate_fake_embeddings lib texts)"
  by (subst call_api_from.simps)
    (auto simp: outcome_of_def accepted_def Let_def case_prod_beta split: http.splits option.splits)


lemma call_api_result:
  "fst (call_api lib remote n texts 3) =
    (let o0 = outcome_of (remote n texts);
         o1 = outcome_of (remote (n + 1) texts);
         o2 = outcome_of (remote (n + 2) texts);
         fake = generate_fake_embeddings lib texts
     in if o0 = Success then the (accepted (remote n texts))
        else if o0 = Refused then fake
        else if o1 = Success then the (accepted (remote (n + 1) texts))
        else if o1 = Refused then fake
        else if o2 = Success then the (accepted (remote (n + 2) texts))
        else fake)"
proof -
  have e3: "fst (call_api_from lib remote n texts 3 3) = generate_fake_embeddings lib texts"
    by (subst call_api_from_result) simp
  have e2: "fst (call_api_from lib remote n texts 3 2) =
              (if outcome_of (remote (n + 2) texts) = Success
               then the (accepted (remote (n + 2) texts))
               else generate_fake_embeddings lib texts)"
    by (subst call_api_from_result) (simp add: e3 split: outcome.splits)
  have e1: "fst (call_api_from lib remote n texts 3 1) =
              (if outcome_of (remote (n + 1) texts) = Success
               then the (accepted (remote (n + 1) texts))
               else if outcome_of (remote (n + 1) texts) = Refused
               then generate_fake_embeddings lib texts
               else fst (call_api_from lib remote n texts 3 2))"
    by (subst call_api_from_result) (simp add: numeral_2_eq_2 split: outcome.splits)
  have e0: "fst (call_api_from lib remote n texts 3 0) =
              (if outcome_of (remote n texts) = Success then the (accepted (remote n texts))
               else if outcome_of (remote n texts) = Refused then generate_fake_embeddings lib texts
               else fst (call_api_from lib remote n texts 3 1))"
    by (subst call_api_from_result) (simp split: outcome.splits)
  show ?thesis
    unfolding call_api_def e0 e1 e2 Let_def by simp
qed

lemma outcome_Success_accepted: "outcome_of r = Success \<longleftrightarrow> accepted r \<noteq> None"
  by (auto simp: outcome_of_def accepted_def split: http.splits option.splits)

lemma attempt_fails_accepted: "attempt_fails r \<longleftrightarrow> accepted r = None"
  by (auto simp: attempt_fails_def accepted_def split: http.splits option.splits)




section \<open>The shape of the embeddings\<close>

lemma is_vector_fake: "is_vector (fake_embedding lib txt)"
  by (simp add: is_vector_def fake_embedding_def dimension_def Let_def)

lemma fake_shape:
  "length (generate_fake_embeddings lib texts) = length texts \<and>
   list_all is_vector (generate_fake_embeddings lib texts)"
  by (simp add: generate_fake_embeddings_def list_all_iff is_vector_fake)

lemma accepted_shape:
  assumes "well_formed_response texts r" and "accepted r = Some vs"
  shows "length vs = length texts \<and> list_all is_vector vs"
proof -
  from assms(1) obtain vectors where r: "r = Response 200 (Some (PList vectors))"
    and shape: "length vectors = length texts" "list_all is_vector vectors"
    by (auto simp: well_formed_response_def split: http.splits option.splits pyvalue.splits)
  from assms(2) r have p: "parse_embeddings (PList vectors) = Some vs"
    by (simp add: accepted_def)
  show ?thesis
  proof (cases vectors)
    case Nil
    with p show ?thesis by simp
  next
    case (Cons v rest)
    with shape(2) obtain xs where "v = PList xs"
      by (cases v) (auto simp: is_vector_def)
    with p Cons have "vs = vectors" by simp
    with shape show ?thesis by simp
  qed
qed

lemma call_api_shape:
  assumes "\<forall>i payload. attempt_fails (remote i payload) \<or> well_formed_response payload (remote i payload)"
  shows "length (fst (call_api lib remote n texts 3)) = length texts \<and>
         list_all is_vector (fst (call_api lib remote n texts 3))"
proof -
  have ok: "length (the (accepted (remote i texts))) = length texts \<and>
            list_all is_vector (the (accepted (remote i texts)))"
    if "outcome_of (remote i texts) = Success" for i
  proof -
    from that obtain vs where vs: "accepted (remote i texts) = Some vs"
      by (auto simp: outcome_Success_accepted)
    moreover have "attempt_fails (remote i texts) \<or> well_formed_response texts (remote i texts)"
      using assms by blast
    ultimately have "well_formed_response texts (remote i texts)"
      by (auto simp: attempt_fails_accepted)
    from accepted_shape [OF this vs] vs show ?thesis by simp
  qed
  show ?thesis
    unfolding call_api_result Let_def
    using ok fake_shape [of lib texts] by presburger
qed

lemma batches_concat: "0 < k \<Longrightarrow> concat (batches k xs) = xs"
proof (induction k xs rule: batches.induct)
  case (1 batch_size texts)
  then show ?case by (subst batches.simps) auto
qed

lemma embed_batches_shape:
  assumes "\<forall>i payload. attempt_fails (remote i payload) \<or> well_formed_response payload (remote i payload)"
  shows "length (fst (embed_batches lib remote n bs)) = length (concat bs) \<and>
         list_all is_vector (fst (embed_batches lib remote n bs))"
proof (induction bs arbitrary: n)
  case Nil
  then show ?case by simp
next
  case (Cons b bs)
  obtain r events where c: "call_api lib remote n b 3 = (r, events)"
    by (cases "call_api lib remote n b 3")
  obtain rs evs where e: "embed_batches lib remote (n + requests events) bs = (rs, evs)"
    by (cases "embed_batches lib remote (n + requests events) bs")
  from call_api_shape [OF assms, of lib n b] c
  have "length r = length b" "list_all is_vector r" by simp_all
  moreover from Cons [of "n + requests events"] e
  have "length rs = length (concat bs)" "list_all is_vector rs" by simp_all
  ultimately show ?case by (simp add: c e)
qed

text \<open>
  C4 (as amended). \<^verbatim>\<open>embed_documents\<close> and \<^verbatim>\<open>embed_query\<close> never raise (they
  are total: every exception of an attempt is caught). When each attempt either fails or
  gets a 200 response whose body is a list of one 384-element list per text sent, as it
  does when every remote call fails, \<^verbatim>\<open>embed_documents\<close> returns exactly one vector
  per input text and every vector returned by either function has length 384. The code does
  not check the shape of the body of a 200 response.
\<close>

theorem embeddings_shape:
  assumes "\<forall>i payload. attempt_fails (remote i payload) \<or> well_formed_response payload (remote i payload)"
  shows "length (fst (embed_documents lib remote n texts)) = length texts \<and>
         list_all is_vector (fst (embed_documents lib remote n texts)) \<and>
         is_vector (fst (embed_query lib remote n txt)) \<and>
         py_len (fst (embed_query lib remote n txt)) = Some 384"
proof -
  from call_api_shape [OF assms, of lib n "[txt]"]
  have v: "is_vector (fst (embed_query lib remote n txt))"
    by (cases "call_api lib remote n [txt] 3"; cases "fst (call_api lib remote n [txt] 3)")
      (auto simp: embed_query_def)
  then have "py_len (fst (embed_query lib remote n txt)) = Some 384"
    by (cases "fst (embed_query lib remote n txt)") (auto simp: is_vector_def)
  with v show ?thesis
    using embed_batches_shape [OF assms, of lib n "batches 10 texts"]
    by (simp add: embed_documents_def batches_concat)
qed

text \<open>The theorem at a service that is busy on every even request and answers every odd
  one with zero vectors, for twelve texts (two batches) and for one query.\<close>

theorem embeddings_shape_witness:
  "(\<forall>i payload. attempt_fails (example_remote i payload) \<or>
                 well_formed_response payload (example_remote i payload)) \<and>
   length (fst (embed_documents example_lib example_remote 0 (replicate 12 ''text''))) = 12 \<and>
   list_all is_vector (fst (embed_documents example_lib example_remote 0 (replicate 12 ''text''))) \<and>
   py_len (fst (embed_query example_lib example_remote 0 ''hello'')) = Some 384"
proof -
  have h: "\<forall>i payload. attempt_fails (example_remote i payload) \<or>
                       well_formed_response payload (example_remote i payload)"
    by (simp add: example_remote_def attempt_fails_def well_formed_response_def is_vector_def
        list_all_iff)
  show ?thesis
    using embeddings_shape [OF h, of example_lib 0 "replicate 12 ''text''" "''hello''"] h
    by simp
qed

text \<open>
  C4 as stated fails on a 200 response with the body \<^verbatim>\<open>[[]]\<close>:
  \<^verbatim>\<open>embed_query\<close> returns the empty vector, and \<^verbatim>\<open>embed_documents\<close> returns
  one vector for two texts.
\<close>

theorem embeddings_shape_counterexample:
  "fst (embed_query example_lib (\<lambda>i payload. Response 200 (Some (PList [PList []]))) 0 ''hello'')
     = PList [] \<and>
   py_len (PList [] :: rat pyvalue) = Some 0 \<and>
   fst (embed_documents example_lib (\<lambda>i payload. Response 200 (Some (PList [PList []]))) 0
          [''hello'', ''world''])
     = [PList []]"
  by (simp add: embed_query_def embed_documents_def call_api_def call_api_from.simps batches.simps)

section \<open>The performance monitor\<close>

lemma slice_from_negative:
  assumes "0 < k"
  shows "slice_from (- int k) xs = drop (length xs - k) xs"
proof -
  have "nat (max (int (length xs) + - int k) 0) = length xs - k"
    by (simp add: max_def) linarith
  then show ?thesis
    using assms by (simp add: slice_from_def)
qed

text \<open>With a cap of at least 1, the history after a recording is the newest entries of
  the old history followed by the new entry, at most \<open>max_history\<close> of them.\<close>

lemma add_metrics_newest:
  assumes "1 \<le> max_history self"
  shows "metrics_history (add_metrics self m) =
           drop (length (metrics_history self) + 1 - nat (max_history self))
             (metrics_history self @ [m])"
proof -
  obtain k where k: "max_history self = int k" "0 < k"
    using assms by (cases "max_history self") auto
  show ?thesis
  proof (cases "int (length (metrics_history self @ [m])) > max_history self")
    case True
    then show ?thesis
      using k by (simp add: add_metrics_def Let_def slice_from_negative)
  next
    case False
    then show ?thesis
      using k by (simp add: add_metrics_def Let_def)
  qed
qed

lemma add_metrics_bounded:
  assumes "1 \<le> max_history self"
  shows "int (length (metrics_history (add_metrics self m))) \<le> max_history self"
  using assms by (simp add: add_metrics_newest)

lemma add_metrics_cap: "max_history (add_metrics self m) = max_history self"
  by (simp add: add_metrics_def Let_def)

text \<open>
  What \<^verbatim>\<open>measure_performance\<close> does on every exit path of the wrapped function,
  with a cap of at least 1: the result of the function (its value, or its exception) is
  passed on unchanged; one entry is recorded, after the entries that the function recorded
  itself, with the name of the operation, with \<open>success\<close> exactly when the function returned,
  and with the message of the exception otherwise; the history keeps its newest entries and
  is no longer than the cap.
\<close>

lemma measure_performance_records:
  assumes "func state = (result, self, s)" and "1 \<le> max_history self"
  shows "(case measure_performance lib probe name func state of
            (result', monitor', s') \<Rightarrow>
              result' = result \<and> s' = s \<and>
              metrics_history monitor' =
                drop (length (metrics_history self) + 1 - nat (max_history self))
                  (metrics_history self @ [last (metrics_history monitor')]) \<and>
              operation (last (metrics_history monitor')) = name \<and>
              success (last (metrics_history monitor')) = (\<not> isl result) \<and>
              error_message (last (metrics_history monitor')) =
                (case result of Inl e \<Rightarrow> Some (exn_str e) | Inr r \<Rightarrow> None) \<and>
              int (length (metrics_history monitor')) \<le> max_history monitor')"
  using assms
  by (auto simp: measure_performance_def Let_def add_metrics_newest add_metrics_cap
      split: sum.splits)

text \<open>
  C9 fails on the code for a monitor built with the cap 0: \<^verbatim>\<open>_add_metrics\<close> cuts
  the history with the slice \<^verbatim>\<open>[-0:]\<close>, which is the whole list, so the history
  holds one entry after the first measured call and two after the second, above the cap.
\<close>

theorem history_exceeds_zero_cap:
  "(case measure_performance example_lib (example_probes ''job'') ''job''
           (\<lambda>state. (Inr (PNone :: rat pyvalue), state)) (new_monitor 0, ()) of
      (result, monitor, s) \<Rightarrow>
        max_history monitor = 0 \<and> length (metrics_history monitor) = 1 \<and>
        (case measure_performance example_lib (example_probes ''job'') ''job''
                (\<lambda>state. (Inr (PNone :: rat pyvalue), state)) (monitor, s) of
           (result', monitor', s') \<Rightarrow>
             max_history monitor' = 0 \<and> length (metrics_history monitor') = 2))"
  by (simp add: measure_performance_def new_monitor_def add_metrics_def slice_from_def Let_def)

section \<open>The vector store manager\<close>

lemma auto_initialize_frame:
  assumes "auto_initialize lib chroma probes (monitor, st) = (available, monitor', st')"
  shows "(\<forall>name. entries st' name = entries st name) \<and>
         (collections st' = collections st \<or>
          collections st' = (collections st)(COLLECTION_NAME \<mapsto> [])) \<and>
         (available \<longleftrightarrow> \<not> auto_open_fails chroma st) \<and>
         (available \<longrightarrow> vectorstore st' = Some (searched_collection st))"
  using assms
  by (auto simp: auto_initialize_def initialize_vectorstore_def measure_performance_def
      auto_open_fails_def searched_collection_def Let_def entries_def chroma_get_or_create_def
      split: if_splits option.splits)

text \<open>
  C6. When the auto-initialisation fails, or when the splitting gives no document,
  \<^verbatim>\<open>add_documents_enhanced\<close> raises, and every collection has the entries it had
  before the call: nothing is written. (The auto-initialisation, when it succeeds, may have
  created the default collection, empty.)
\<close>

theorem add_fails_without_writing:
  assumes "auto_open_fails chroma st \<or>
           split_documents_with_metadata lib raw_text filename chunk_size chunk_overlap = Inr []"
  shows "(case add_documents_enhanced lib chroma probes raw_text filename chunk_size chunk_overlap
                 (monitor, st) of
            (result, monitor', st') \<Rightarrow>
              isl result \<and>
              (\<forall>name. entries st' name = entries st name) \<and>
              (collections st' = collections st \<or>
               collections st' = (collections st)(COLLECTION_NAME \<mapsto> [])))"
proof -
  obtain available monitor1 st1 where
    a: "auto_initialize lib chroma probes (monitor, st) = (available, monitor1, st1)"
    by (cases "auto_initialize lib chroma probes (monitor, st)")
  note f = auto_initialize_frame [OF a]
  show ?thesis
    using assms f
    by (auto simp: add_documents_enhanced_def measure_performance_def a Let_def
        split: prod.splits bool.splits sum.splits)
qed

lemma whitespace_gives_no_document:
  "split_documents_with_metadata example_lib ''   '' ''a.txt'' 1000 200 = Inr []"
  by code_simp

text \<open>The theorem at a text of three spaces, added by a manager just built.\<close>

theorem add_fails_without_writing_witness:
  "split_documents_with_metadata example_lib ''   '' ''a.txt'' 1000 200 = Inr [] \<and>
   (case add_documents_enhanced example_lib (example_chroma False False False) example_probes
           ''   '' ''a.txt'' 1000 200 (new_monitor 100, new_store) of
      (result, monitor', st') \<Rightarrow>
        isl result \<and>
        (\<forall>name. entries st' name = entries new_store name) \<and>
        (collections st' = collections new_store \<or>
         collections st' = (collections new_store)(COLLECTION_NAME \<mapsto> [])))"
  using add_fails_without_writing [where chroma = "example_chroma False False False"
      and st = new_store and lib = example_lib and raw_text = "''   ''" and filename = "''a.txt''"
      and chunk_size = 1000 and chunk_overlap = 200 and probes = example_probes
      and monitor = "new_monitor 100"]
    whitespace_gives_no_document
  by simp

text \<open>
  C7. On a valid query, \<^verbatim>\<open>search_with_metadata\<close> never raises: it returns a list of
  results, and that list is empty when the auto-initialisation fails, when the similarity
  lookup raises, and when the collection searched has no entry.
\<close>

theorem search_degrades_to_empty:
  assumes "fst (validate_question query)"
  shows "(case search_with_metadata lib chroma probes query k (monitor, st) of
            (result, monitor', st') \<Rightarrow>
              (\<exists>results. result = Inr results) \<and>
              (auto_open_fails chroma st \<or> chroma_search_fails chroma \<or>
               entries st (searched_collection st) = [] \<longrightarrow> result = Inr []))"
proof -
  obtain available monitor1 st1 where
    a: "auto_initialize lib chroma probes (monitor, st) = (available, monitor1, st1)"
    by (cases "auto_initialize lib chroma probes (monitor, st)")
  note f = auto_initialize_frame [OF a]
  show ?thesis
    using assms f
    by (auto simp: search_with_metadata_def measure_performance_def a Let_def
        chroma_similarity_search_def
        split: prod.splits bool.splits sum.splits option.splits if_splits)
qed

lemma example_question_valid: "fst (validate_question ''What is the refund policy?'')"
  by code_simp

text \<open>The theorem at a search by a manager just built, whose collection is empty.\<close>

theorem search_degrades_to_empty_witness:
  "fst (validate_question ''What is the refund policy?'') \<and>
   entries new_store (searched_collection new_store) = [] \<and>
   (case search_with_metadata example_lib (example_chroma False False False) example_probes
           ''What is the refund policy?'' DEFAULT_K_DOCUMENTS (new_monitor 100, new_store) of
      (result, monitor', st') \<Rightarrow> result = Inr [])"
proof -
  have e: "entries new_store (searched_collection new_store) = []"
    by (simp add: new_store_def entries_def)
  show ?thesis
    using search_degrades_to_empty [OF example_question_valid, where lib = example_lib
        and chroma = "example_chroma False False False" and probes = example_probes
        and k = DEFAULT_K_DOCUMENTS
        and monitor = "new_monitor 100" and st = new_store]
      example_question_valid e
    by (auto split: prod.splits)
qed

end
